theory Spec2Isabelle
  imports Main "HOL-Library.Product_Lexorder" "HOL-Library.Sublist" "HOL-Library.Monad_Syntax"
begin

section \<open>Dates and times\<close>

text \<open>
  The program works on naive \<^verbatim>\<open>datetime\<close> objects of Python's standard library. Such an
  object stores its calendar fields, and that is what the record below holds. The
  library's constructor only builds objects with fields in range; \<open>valid_datetime\<close>
  states those ranges (\<^verbatim>\<open>_check_date_fields\<close> and \<^verbatim>\<open>_check_time_fields\<close>).
\<close>

record datetime =
  year :: nat
  month :: nat
  day :: nat
  hour :: nat
  minute :: nat
  second :: nat
  microsecond :: nat

definition is_leap :: "nat \<Rightarrow> bool" where
  "is_leap y = (y mod 4 = 0 \<and> (y mod 100 \<noteq> 0 \<or> y mod 400 = 0))"

definition DAYS_IN_MONTH :: "nat list" where
  "DAYS_IN_MONTH = [0, 31, 28, 31, 30, 31, 30, 31, 31, 30, 31, 30, 31]"

definition DAYS_BEFORE_MONTH :: "nat list" where
  "DAYS_BEFORE_MONTH = [0, 0, 31, 59, 90, 120, 151, 181, 212, 243, 273, 304, 334]"

definition days_in_month :: "nat \<Rightarrow> nat \<Rightarrow> nat" where
  "days_in_month y m = (if m = 2 \<and> is_leap y then 29 else DAYS_IN_MONTH ! m)"

definition valid_datetime :: "datetime \<Rightarrow> bool" where
  "valid_datetime d =
     (1 \<le> year d \<and> year d \<le> 9999 \<and> 1 \<le> month d \<and> month d \<le> 12 \<and>
      1 \<le> day d \<and> day d \<le> days_in_month (year d) (month d) \<and>
      hour d < 24 \<and> minute d < 60 \<and> second d < 60 \<and> microsecond d < 1000000)"

text \<open>
  Comparison of two naive datetimes (\<^verbatim>\<open>datetime._cmp\<close>) compares the tuples
  (year, month, day, hour, minute, second, microsecond) lexicographically.
\<close>

definition dt_tuple :: "datetime \<Rightarrow> nat \<times> nat \<times> nat \<times> nat \<times> nat \<times> nat \<times> nat" where
  "dt_tuple d = (year d, month d, day d, hour d, minute d, second d, microsecond d)"

definition datetime_lt :: "datetime \<Rightarrow> datetime \<Rightarrow> bool" where
  "datetime_lt a b = (dt_tuple a < dt_tuple b)"

definition datetime_le :: "datetime \<Rightarrow> datetime \<Rightarrow> bool" where
  "datetime_le a b = (dt_tuple a \<le> dt_tuple b)"

text \<open>
  Subtraction \<^verbatim>\<open>a - b\<close> builds \<^verbatim>\<open>timedelta(days1 - days2, secs1 - secs2, us1 - us2)\<close> from
  the proleptic Gregorian ordinals of the dates and the seconds into the day; the
  \<^verbatim>\<open>timedelta\<close> constructor normalises with floor division, carrying microseconds into
  seconds and seconds into days. \<open>timedelta_days a b\<close> is \<^verbatim>\<open>(a - b).days\<close>.
\<close>

definition days_before_year :: "nat \<Rightarrow> int" where
  "days_before_year y = (let y1 = int y - 1 in y1 * 365 + y1 div 4 - y1 div 100 + y1 div 400)"

definition days_before_month :: "nat \<Rightarrow> nat \<Rightarrow> int" where
  "days_before_month y m =
     int (DAYS_BEFORE_MONTH ! m) + (if 2 < m \<and> is_leap y then 1 else 0)"

definition ymd2ord :: "nat \<Rightarrow> nat \<Rightarrow> nat \<Rightarrow> int" where
  "ymd2ord y m d = days_before_year y + days_before_month y m + int d"

definition toordinal :: "datetime \<Rightarrow> int" where
  "toordinal d = ymd2ord (year d) (month d) (day d)"

definition day_seconds :: "datetime \<Rightarrow> int" where
  "day_seconds d = int (second d) + int (minute d) * 60 + int (hour d) * 3600"

definition timedelta_days :: "datetime \<Rightarrow> datetime \<Rightarrow> int" where
  "timedelta_days a b =
     (let days = toordinal a - toordinal b;
          seconds = day_seconds a - day_seconds b;
          microseconds = int (microsecond a) - int (microsecond b)
      in days + (seconds + microseconds div 1000000) div 86400)"

section \<open>Enumerations\<close>

datatype Priority = LOW | MEDIUM | HIGH | CRITICAL

datatype TaskStatus = PENDING | COMPLETED | ARCHIVED | DELETED

section \<open>Task\<close>

text \<open>
  The fields carry the types of the source's annotations. Every call of
  \<^verbatim>\<open>datetime.now()\<close> is an explicit argument: the reading the clock gave at that call.
\<close>

record Task =
  title :: string
  description :: string
  due_date :: "datetime option"
  priority :: Priority
  category :: string
  status :: TaskStatus
  created_at :: datetime
  updated_at :: datetime
  completed_at :: "datetime option"

text \<open>\<^verbatim>\<open>Task.__init__\<close>: two clock readings, one for each timestamp.\<close>

definition Task_init ::
  "string \<Rightarrow> string \<Rightarrow> datetime option \<Rightarrow> Priority \<Rightarrow> string \<Rightarrow> datetime \<Rightarrow> datetime \<Rightarrow> Task" where
  "Task_init ttl descr due prio cat now1 now2 =
     \<lparr>title = ttl, description = descr, due_date = due, priority = prio, category = cat,
      status = PENDING, created_at = now1, updated_at = now2, completed_at = None\<rparr>"

text \<open>
  \<^verbatim>\<open>Task.update\<close> stores a keyword's value when \<^verbatim>\<open>hasattr(self, key)\<close> holds and skips
  the keyword otherwise. A task has the nine attributes set by its constructor, the
  methods of its class, and the special attributes every object has, whose names all
  begin with two underscores. \<open>hasattr_possible\<close> holds of these names; for every other
  name \<^verbatim>\<open>hasattr\<close> is false. (Which special names an object has depends on the
  interpreter, so every name with two leading underscores is counted.)
\<close>

definition field_names :: "string list" where
  "field_names = [''title'', ''description'', ''due_date'', ''priority'', ''category'',
                  ''status'', ''created_at'', ''updated_at'', ''completed_at'']"

definition method_names :: "string list" where
  "method_names = [''update'', ''mark_as_completed'', ''archive'', ''to_dict'', ''from_dict'',
                   ''is_overdue'', ''days_until_due'']"

definition hasattr_possible :: "string \<Rightarrow> bool" where
  "hasattr_possible k =
     (k \<in> set field_names \<or> k \<in> set method_names \<or> take 2 k = ''__'')"

text \<open>The names a task certainly lacks: the keywords the loop of \<^verbatim>\<open>update\<close> skips.\<close>

typedef unknown_name = "{k. \<not> hasattr_possible k}"
  by (rule exI [of _ "''colour''"])
     (simp add: hasattr_possible_def field_names_def method_names_def)

setup_lifting type_definition_unknown_name

text \<open>
  The keyword arguments of \<^verbatim>\<open>Task.update\<close>. A keyword naming one of the nine data
  attributes carries a value of that attribute's type and \<^verbatim>\<open>setattr\<close> stores it;
  \<open>Unknown k\<close> is a keyword whose name \<open>k\<close> the task lacks, which the loop skips. The
  source would also store a value under the name of a method or of a special attribute
  (a later call of that method then fails), and a value of another type than the
  attribute's annotation; such keywords have no counterpart among the typed tasks and
  are not values of this type.
\<close>

datatype kwarg =
    Title string
  | Description string
  | Due_date "datetime option"
  | Priority_kw Priority
  | Category string
  | Status TaskStatus
  | Created_at datetime
  | Updated_at datetime
  | Completed_at "datetime option"
  | Unknown unknown_name

fun setattr :: "Task \<Rightarrow> kwarg \<Rightarrow> Task" where
  "setattr t (Title v) = t\<lparr>title := v\<rparr>"
| "setattr t (Description v) = t\<lparr>description := v\<rparr>"
| "setattr t (Due_date v) = t\<lparr>due_date := v\<rparr>"
| "setattr t (Priority_kw v) = t\<lparr>priority := v\<rparr>"
| "setattr t (Category v) = t\<lparr>category := v\<rparr>"
| "setattr t (Status v) = t\<lparr>status := v\<rparr>"
| "setattr t (Created_at v) = t\<lparr>created_at := v\<rparr>"
| "setattr t (Updated_at v) = t\<lparr>updated_at := v\<rparr>"
| "setattr t (Completed_at v) = t\<lparr>completed_at := v\<rparr>"
| "setattr t (Unknown k) = t"

definition update :: "Task \<Rightarrow> kwarg list \<Rightarrow> datetime \<Rightarrow> Task" where
  "update t kwargs now = (foldl setattr t kwargs)\<lparr>updated_at := now\<rparr>"

definition mark_as_completed :: "Task \<Rightarrow> datetime \<Rightarrow> datetime \<Rightarrow> Task" where
  "mark_as_completed t now1 now2 =
     t\<lparr>status := COMPLETED, completed_at := Some now1, updated_at := now2\<rparr>"

definition archive :: "Task \<Rightarrow> datetime \<Rightarrow> Task" where
  "archive t now = t\<lparr>status := ARCHIVED, updated_at := now\<rparr>"

text \<open>
  \<^verbatim>\<open>is_overdue\<close> returns the value of an \<^verbatim>\<open>and\<close> chain; the model returns its truth
  value (\<^verbatim>\<open>None\<close>, for a task with no due date, is falsy).
\<close>

definition is_overdue :: "Task \<Rightarrow> datetime \<Rightarrow> bool" where
  "is_overdue t now =
     (case due_date t of
        None \<Rightarrow> False
      | Some d \<Rightarrow> if datetime_lt d now then status t \<noteq> COMPLETED else False)"

definition days_until_due :: "Task \<Rightarrow> datetime \<Rightarrow> int option" where
  "days_until_due t now =
     (case due_date t of None \<Rightarrow> None | Some d \<Rightarrow> Some (timedelta_days d now))"

section \<open>ChangeLog\<close>

text \<open>JSON values, as \<^verbatim>\<open>json.load\<close> returns them and \<^verbatim>\<open>json.dump\<close> takes them
  (floats are left out: no path of the program treats one differently from an integer).\<close>

datatype json =
    JNull
  | JBool bool
  | JInt int
  | JString string
  | JArray "json list"
  | JObject "(string \<times> json) list"

record change =
  action :: string
  task_data :: json
  timestamp :: datetime

text \<open>\<^verbatim>\<open>add_change\<close>: \<^verbatim>\<open>timestamp or datetime.now()\<close>; a datetime is always truthy.\<close>

definition add_change ::
  "change list \<Rightarrow> string \<Rightarrow> json \<Rightarrow> datetime option \<Rightarrow> datetime \<Rightarrow> change list" where
  "add_change changes act td ts now =
     changes @ [\<lparr>action = act, task_data = td,
                 timestamp = (case ts of None \<Rightarrow> now | Some t \<Rightarrow> t)\<rparr>]"

definition get_changes_since :: "change list \<Rightarrow> datetime \<Rightarrow> change list" where
  "get_changes_since changes since = [c \<leftarrow> changes. datetime_le since (timestamp c)]"


section \<open>The wire format of dates\<close>

text \<open>
  \<^verbatim>\<open>strftime\<close> with the formats \<^verbatim>\<open>%Y-%m-%d\<close> and \<^verbatim>\<open>%Y-%m-%d %H:%M:%S\<close>. \<^verbatim>\<open>%Y\<close> is
  the year in decimal as the C library prints it, without padding: four digits from
  the year 1000 on, fewer below (\<^verbatim>\<open>999-01-02\<close>). Every other field has two digits, zero
  padded. The microsecond is not written.
\<close>

definition digit :: "nat \<Rightarrow> char" where
  "digit n = char_of (48 + n)"

definition pad2 :: "nat \<Rightarrow> string" where
  "pad2 n = [digit (n div 10 mod 10), digit (n mod 10)]"

definition pad4 :: "nat \<Rightarrow> string" where
  "pad4 n = [digit (n div 1000 mod 10), digit (n div 100 mod 10),
             digit (n div 10 mod 10), digit (n mod 10)]"

definition format_Y :: "nat \<Rightarrow> string" where
  "format_Y y =
     (if y < 10 then [digit y]
      else if y < 100 then [digit (y div 10), digit (y mod 10)]
      else if y < 1000 then [digit (y div 100), digit (y div 10 mod 10), digit (y mod 10)]
      else pad4 y)"

definition strftime_date :: "datetime \<Rightarrow> string" where
  "strftime_date d = format_Y (year d) @ ''-'' @ pad2 (month d) @ ''-'' @ pad2 (day d)"

definition strftime_datetime :: "datetime \<Rightarrow> string" where
  "strftime_datetime d =
     strftime_date d @ '' '' @ pad2 (hour d) @ '':'' @ pad2 (minute d) @ '':'' @ pad2 (second d)"

section \<open>Serialising a task\<close>

fun Priority_name :: "Priority \<Rightarrow> string" where
  "Priority_name LOW = ''LOW''"
| "Priority_name MEDIUM = ''MEDIUM''"
| "Priority_name HIGH = ''HIGH''"
| "Priority_name CRITICAL = ''CRITICAL''"

fun TaskStatus_name :: "TaskStatus \<Rightarrow> string" where
  "TaskStatus_name PENDING = ''PENDING''"
| "TaskStatus_name COMPLETED = ''COMPLETED''"
| "TaskStatus_name ARCHIVED = ''ARCHIVED''"
| "TaskStatus_name DELETED = ''DELETED''"

definition to_dict :: "Task \<Rightarrow> json" where
  "to_dict t = JObject
     [(''title'', JString (title t)),
      (''description'', JString (description t)),
      (''due_date'', case due_date t of None \<Rightarrow> JNull | Some d \<Rightarrow> JString (strftime_date d)),
      (''priority'', JString (Priority_name (priority t))),
      (''category'', JString (category t)),
      (''status'', JString (TaskStatus_name (status t))),
      (''created_at'', JString (strftime_datetime (created_at t))),
      (''updated_at'', JString (strftime_datetime (updated_at t))),
      (''completed_at'',
         case completed_at t of None \<Rightarrow> JNull | Some d \<Rightarrow> JString (strftime_datetime d))]"

text \<open>\<^verbatim>\<open>ChangeLog.to_dict\<close>.\<close>

definition changelog_to_dict :: "change list \<Rightarrow> json" where
  "changelog_to_dict changes = JArray
     (map (\<lambda>c. JObject [(''action'', JString (action c)),
                         (''task_data'', task_data c),
                         (''timestamp'', JString (strftime_datetime (timestamp c)))]) changes)"

section \<open>TaskFilter\<close>

record TaskFilter =
  status_f :: "TaskStatus option"
  priority_f :: "Priority option"
  category_f :: "string option"
  overdue_only :: bool
  due_in_days :: "int option"

text \<open>
  \<^verbatim>\<open>TaskFilter.apply\<close>: five passes over the list, each behind its own test. The clock is
  read once for every task a time-dependent pass looks at; \<open>now\<close> is the reading, taken to
  be the same for all of them within one call.
\<close>

definition apply_filter :: "TaskFilter \<Rightarrow> Task list \<Rightarrow> datetime \<Rightarrow> Task list" where
  "apply_filter f tasks now =
     (let filtered = tasks;
          filtered = (case status_f f of None \<Rightarrow> filtered
                      | Some s \<Rightarrow> [t \<leftarrow> filtered. status t = s]);
          filtered = (case priority_f f of None \<Rightarrow> filtered
                      | Some p \<Rightarrow> [t \<leftarrow> filtered. priority t = p]);
          filtered = (case category_f f of None \<Rightarrow> filtered
                      | Some c \<Rightarrow> [t \<leftarrow> filtered. category t = c]);
          filtered = (if overdue_only f then [t \<leftarrow> filtered. is_overdue t now] else filtered);
          filtered = (case due_in_days f of None \<Rightarrow> filtered
                      | Some n \<Rightarrow> [t \<leftarrow> filtered.
                            case days_until_due t now of None \<Rightarrow> False
                            | Some k \<Rightarrow> 0 \<le> k \<and> k \<le> n])
      in filtered)"

section \<open>TaskManager\<close>

text \<open>
  The manager's state with the part of the world it acts on: the storage file
  \<^verbatim>\<open>task_manager_data.json\<close> (\<open>None\<close> when absent) and the trace of its effects, oldest
  first: every rewrite of the file, every message handed to the notification sink, every
  diagnostic printed by the load. The file's content is what \<^verbatim>\<open>json.load\<close> makes of it:
  a JSON value, or \<open>Malformed\<close> when it raises \<^verbatim>\<open>JSONDecodeError\<close>.

  Tasks are identified by their position. The list holds task values: each position is
  taken to hold an object of its own, as when the console builds a new task for every add.
\<close>

datatype file_content = Malformed | Document json

datatype exn = JSONDecodeError | KeyError | ValueError | TypeError | AttributeError | Untyped

datatype effect = Wrote json | Sent string | Printed_load_error exn

record TaskManager =
  tasks :: "Task list"
  changelog :: "change list"
  storage :: "file_content option"
  effects :: "effect list"

text \<open>\<^verbatim>\<open>save_data\<close>: the whole state, written over the file.\<close>

definition state_document :: "TaskManager \<Rightarrow> json" where
  "state_document m =
     JObject [(''tasks'', JArray (map to_dict (tasks m))),
              (''changelog'', changelog_to_dict (changelog m))]"

definition save_data :: "TaskManager \<Rightarrow> TaskManager" where
  "save_data m =
     (let data = state_document m
      in m\<lparr>storage := Some (Document data), effects := effects m @ [Wrote data]\<rparr>)"

definition send :: "TaskManager \<Rightarrow> string \<Rightarrow> TaskManager" where
  "send m message = m\<lparr>effects := effects m @ [Sent message]\<rparr>"

definition in_range :: "TaskManager \<Rightarrow> int \<Rightarrow> bool" where
  "in_range m task_id = (0 \<le> task_id \<and> task_id < int (length (tasks m)))"

definition add_task :: "TaskManager \<Rightarrow> Task \<Rightarrow> datetime \<Rightarrow> Task \<times> TaskManager" where
  "add_task m task now =
     (let m = m\<lparr>tasks := tasks m @ [task]\<rparr>;
          m = m\<lparr>changelog := add_change (changelog m) ''CREATE'' (to_dict task) None now\<rparr>;
          m = save_data m;
          m = send m (''Task added: '' @ title task)
      in (task, m))"

definition update_task ::
  "TaskManager \<Rightarrow> int \<Rightarrow> kwarg list \<Rightarrow> datetime \<Rightarrow> datetime \<Rightarrow> Task option \<times> TaskManager" where
  "update_task m task_id kwargs now1 now2 =
     (if in_range m task_id then
        let task = tasks m ! nat task_id;
            old_data = to_dict task;
            task = update task kwargs now1;
            m = m\<lparr>tasks := (tasks m)[nat task_id := task]\<rparr>;
            m = m\<lparr>changelog := add_change (changelog m) ''UPDATE''
                   (JObject [(''old'', old_data), (''new'', to_dict task)]) None now2\<rparr>;
            m = save_data m;
            m = send m (''Task updated: '' @ title task)
        in (Some task, m)
      else (None, m))"

definition delete_task :: "TaskManager \<Rightarrow> int \<Rightarrow> datetime \<Rightarrow> bool \<times> TaskManager" where
  "delete_task m task_id now =
     (if in_range m task_id then
        let task = tasks m ! nat task_id;
            task = task\<lparr>status := DELETED\<rparr>;
            m = m\<lparr>tasks := (tasks m)[nat task_id := task]\<rparr>;
            m = m\<lparr>changelog := add_change (changelog m) ''DELETE'' (to_dict task) None now\<rparr>;
            m = save_data m;
            m = send m (''Task deleted: '' @ title task)
        in (True, m)
      else (False, m))"

definition complete_task ::
  "TaskManager \<Rightarrow> int \<Rightarrow> datetime \<Rightarrow> datetime \<Rightarrow> datetime \<Rightarrow> Task option \<times> TaskManager" where
  "complete_task m task_id now1 now2 now3 =
     (if in_range m task_id then
        let task = tasks m ! nat task_id;
            task = mark_as_completed task now1 now2;
            m = m\<lparr>tasks := (tasks m)[nat task_id := task]\<rparr>;
            m = m\<lparr>changelog := add_change (changelog m) ''COMPLETE'' (to_dict task) None now3\<rparr>;
            m = save_data m;
            m = send m (''Task completed: '' @ title task)
        in (Some task, m)
      else (None, m))"

definition archive_task ::
  "TaskManager \<Rightarrow> int \<Rightarrow> datetime \<Rightarrow> datetime \<Rightarrow> Task option \<times> TaskManager" where
  "archive_task m task_id now1 now2 =
     (if in_range m task_id then
        let task = tasks m ! nat task_id;
            task = archive task now1;
            m = m\<lparr>tasks := (tasks m)[nat task_id := task]\<rparr>;
            m = m\<lparr>changelog := add_change (changelog m) ''ARCHIVE'' (to_dict task) None now2\<rparr>;
            m = save_data m
        in (Some task, m)
      else (None, m))"

definition get_task :: "TaskManager \<Rightarrow> int \<Rightarrow> Task option" where
  "get_task m task_id = (if in_range m task_id then Some (tasks m ! nat task_id) else None)"

definition filter_tasks :: "TaskManager \<Rightarrow> TaskFilter \<Rightarrow> datetime \<Rightarrow> Task list" where
  "filter_tasks m task_filter now = apply_filter task_filter (tasks m) now"


section \<open>Reading dates back\<close>

text \<open>
  \<^verbatim>\<open>datetime.strptime\<close> turns the format into a regular expression, matches it at the
  start of the string, and raises \<^verbatim>\<open>ValueError\<close> when it does not match or does not
  consume the whole string. The directives used here: \<^verbatim>\<open>%Y\<close> is four digits; \<^verbatim>\<open>%m\<close> is
  \<^verbatim>\<open>1[0-2]|0[1-9]|[1-9]\<close>; \<^verbatim>\<open>%d\<close> is \<^verbatim>\<open>3[0-1]|[1-2]\d|0[1-9]|[1-9]| [1-9]\<close>; \<^verbatim>\<open>%H\<close> is
  \<^verbatim>\<open>2[0-3]|[0-1]\d|\d\<close>; \<^verbatim>\<open>%M\<close> is \<^verbatim>\<open>[0-5]\d|\d\<close>; \<^verbatim>\<open>%S\<close> is \<^verbatim>\<open>6[0-1]|[0-5]\d|\d\<close>; a blank
  of the format is \<^verbatim>\<open>\s+\<close>. Every field is followed by a character that is no digit, or
  by the end, so trying the alternatives in order and never going back reads the same
  strings as the regular expression. The fields then go through the \<^verbatim>\<open>datetime\<close>
  constructor, which raises \<^verbatim>\<open>ValueError\<close> on a field out of range. Strings are ASCII.
\<close>

definition is_digit :: "char \<Rightarrow> bool" where
  "is_digit c = (48 \<le> (of_char c :: nat) \<and> (of_char c :: nat) \<le> 57)"

definition digit_value :: "char \<Rightarrow> nat" where
  "digit_value c = of_char c - 48"

definition is_space :: "char \<Rightarrow> bool" where
  "is_space c = (let n = (of_char c :: nat) in (9 \<le> n \<and> n \<le> 13) \<or> (28 \<le> n \<and> n \<le> 32))"

fun parse_Y :: "string \<Rightarrow> (nat \<times> string) option" where
  "parse_Y (a # b # c # d # rest) =
     (if is_digit a \<and> is_digit b \<and> is_digit c \<and> is_digit d
      then Some (1000 * digit_value a + 100 * digit_value b + 10 * digit_value c + digit_value d,
                 rest)
      else None)"
| "parse_Y cs = None"

fun two_digits :: "(nat \<Rightarrow> nat \<Rightarrow> bool) \<Rightarrow> string \<Rightarrow> (nat \<times> string) option" where
  "two_digits ok (a # b # rest) =
     (if is_digit a \<and> is_digit b \<and> ok (digit_value a) (digit_value b)
      then Some (10 * digit_value a + digit_value b, rest) else None)"
| "two_digits ok cs = None"

fun one_digit :: "(nat \<Rightarrow> bool) \<Rightarrow> string \<Rightarrow> (nat \<times> string) option" where
  "one_digit ok (a # rest) =
     (if is_digit a \<and> ok (digit_value a) then Some (digit_value a, rest) else None)"
| "one_digit ok cs = None"

definition orelse :: "'a option \<Rightarrow> 'a option \<Rightarrow> 'a option" where
  "orelse x y = (case x of None \<Rightarrow> y | Some v \<Rightarrow> Some v)"

definition parse_m :: "string \<Rightarrow> (nat \<times> string) option" where
  "parse_m cs =
     orelse (two_digits (\<lambda>a b. (a = 1 \<and> b \<le> 2) \<or> (a = 0 \<and> 1 \<le> b)) cs)
            (one_digit (\<lambda>a. 1 \<le> a) cs)"

definition parse_d :: "string \<Rightarrow> (nat \<times> string) option" where
  "parse_d cs =
     orelse (two_digits (\<lambda>a b. (a = 3 \<and> b \<le> 1) \<or> (1 \<le> a \<and> a \<le> 2) \<or> (a = 0 \<and> 1 \<le> b)) cs)
    (orelse (one_digit (\<lambda>a. 1 \<le> a) cs)
            (case cs of c # rest \<Rightarrow> if c = CHR '' '' then one_digit (\<lambda>a. 1 \<le> a) rest else None
             | [] \<Rightarrow> None))"

definition parse_H :: "string \<Rightarrow> (nat \<times> string) option" where
  "parse_H cs =
     orelse (two_digits (\<lambda>a b. (a = 2 \<and> b \<le> 3) \<or> a \<le> 1) cs) (one_digit (\<lambda>a. True) cs)"

definition parse_M :: "string \<Rightarrow> (nat \<times> string) option" where
  "parse_M cs = orelse (two_digits (\<lambda>a b. a \<le> 5) cs) (one_digit (\<lambda>a. True) cs)"

definition parse_S :: "string \<Rightarrow> (nat \<times> string) option" where
  "parse_S cs =
     orelse (two_digits (\<lambda>a b. (a = 6 \<and> b \<le> 1) \<or> a \<le> 5) cs) (one_digit (\<lambda>a. True) cs)"

fun literal :: "char \<Rightarrow> string \<Rightarrow> string option" where
  "literal c (x # rest) = (if x = c then Some rest else None)"
| "literal c [] = None"

fun blanks :: "string \<Rightarrow> string option" where
  "blanks (x # rest) = (if is_space x then Some (dropWhile is_space rest) else None)"
| "blanks [] = None"

definition parse_date :: "string \<Rightarrow> ((nat \<times> nat \<times> nat) \<times> string) option" where
  "parse_date s = do {
     (y, s) \<leftarrow> parse_Y s;
     s \<leftarrow> literal CHR ''-'' s;
     (m, s) \<leftarrow> parse_m s;
     s \<leftarrow> literal CHR ''-'' s;
     (d, s) \<leftarrow> parse_d s;
     Some ((y, m, d), s)
   }"

definition parse_time :: "string \<Rightarrow> ((nat \<times> nat \<times> nat) \<times> string) option" where
  "parse_time s = do {
     (h, s) \<leftarrow> parse_H s;
     s \<leftarrow> literal CHR '':'' s;
     (mi, s) \<leftarrow> parse_M s;
     s \<leftarrow> literal CHR '':'' s;
     (sec, s) \<leftarrow> parse_S s;
     Some ((h, mi, sec), s)
   }"

text \<open>The \<^verbatim>\<open>datetime\<close> constructor: the object, or \<^verbatim>\<open>ValueError\<close>.\<close>

definition new_datetime :: "nat \<Rightarrow> nat \<Rightarrow> nat \<Rightarrow> nat \<Rightarrow> nat \<Rightarrow> nat \<Rightarrow> nat \<Rightarrow> exn + datetime" where
  "new_datetime y m d h mi sec us =
     (let dt = \<lparr>year = y, month = m, day = d, hour = h, minute = mi, second = sec,
                microsecond = us\<rparr>
      in if valid_datetime dt then Inr dt else Inl ValueError)"

definition strptime_date :: "string \<Rightarrow> exn + datetime" where
  "strptime_date s =
     (case parse_date s of
        Some ((y, m, d), []) \<Rightarrow> new_datetime y m d 0 0 0 0
      | _ \<Rightarrow> Inl ValueError)"

definition strptime_datetime :: "string \<Rightarrow> exn + datetime" where
  "strptime_datetime s =
     (case do { (ymd, s) \<leftarrow> parse_date s; s \<leftarrow> blanks s; (hms, s) \<leftarrow> parse_time s;
                Some (ymd, hms, s) } of
        Some ((y, m, d), (h, mi, sec), []) \<Rightarrow> new_datetime y m d h mi sec 0
      | _ \<Rightarrow> Inl ValueError)"

section \<open>Deserialising\<close>

text \<open>
  Exceptions are values: \<open>Inl e\<close> is the exception \<open>e\<close> raised, and \<open>raise_or\<close> runs the
  rest of a block only when nothing was raised.

  \<open>Untyped\<close> is no exception of Python. A record may hold a value that is no string where
  the source's annotations say \<^verbatim>\<open>str\<close> (a title, a description, a category, an action);
  the source stores it unchecked and goes on. The typed records here have no such task,
  and the model stops with \<open>Untyped\<close> on such a record.
\<close>

definition raise_or :: "exn + 'a \<Rightarrow> ('a \<Rightarrow> exn + 'b) \<Rightarrow> exn + 'b" where
  "raise_or r f = (case r of Inl e \<Rightarrow> Inl e | Inr x \<Rightarrow> f x)"

text \<open>\<^verbatim>\<open>data[key]\<close> with a string key: only a dict can be subscripted by a string.\<close>

definition getitem :: "json \<Rightarrow> string \<Rightarrow> exn + json" where
  "getitem data k =
     (case data of
        JObject kvs \<Rightarrow> (case map_of kvs k of None \<Rightarrow> Inl KeyError | Some v \<Rightarrow> Inr v)
      | _ \<Rightarrow> Inl TypeError)"

text \<open>\<^verbatim>\<open>data.get(key, default)\<close>: only a dict has the method.\<close>

definition get :: "json \<Rightarrow> string \<Rightarrow> json \<Rightarrow> exn + json" where
  "get data k dflt =
     (case data of
        JObject kvs \<Rightarrow> Inr (case map_of kvs k of None \<Rightarrow> dflt | Some v \<Rightarrow> v)
      | _ \<Rightarrow> Inl AttributeError)"

fun truthy :: "json \<Rightarrow> bool" where
  "truthy JNull = False"
| "truthy (JBool b) = b"
| "truthy (JInt n) = (n \<noteq> 0)"
| "truthy (JString s) = (s \<noteq> [])"
| "truthy (JArray xs) = (xs \<noteq> [])"
| "truthy (JObject kvs) = (kvs \<noteq> [])"

text \<open>\<^verbatim>\<open>for x in v\<close>: a list gives its elements, a dict its keys, a string its characters.\<close>

fun iterate :: "json \<Rightarrow> exn + json list" where
  "iterate (JArray xs) = Inr xs"
| "iterate (JObject kvs) = Inr (map (\<lambda>kv. JString (fst kv)) kvs)"
| "iterate (JString s) = Inr (map (\<lambda>c. JString [c]) s)"
| "iterate v = Inl TypeError"

text \<open>\<^verbatim>\<open>strptime\<close> on a value that is no string raises \<^verbatim>\<open>TypeError\<close>.\<close>

fun strptime_date_of :: "json \<Rightarrow> exn + datetime" where
  "strptime_date_of (JString s) = strptime_date s"
| "strptime_date_of v = Inl TypeError"

fun strptime_datetime_of :: "json \<Rightarrow> exn + datetime" where
  "strptime_datetime_of (JString s) = strptime_datetime s"
| "strptime_datetime_of v = Inl TypeError"

text \<open>\<^verbatim>\<open>Priority[name]\<close> and \<^verbatim>\<open>TaskStatus[name]\<close>: a lookup in the dict of member names;
  a list or a dict cannot be hashed.\<close>

fun Priority_getitem :: "json \<Rightarrow> exn + Priority" where
  "Priority_getitem (JString s) =
     (if s = ''LOW'' then Inr LOW else if s = ''MEDIUM'' then Inr MEDIUM
      else if s = ''HIGH'' then Inr HIGH else if s = ''CRITICAL'' then Inr CRITICAL
      else Inl KeyError)"
| "Priority_getitem (JArray xs) = Inl TypeError"
| "Priority_getitem (JObject kvs) = Inl TypeError"
| "Priority_getitem v = Inl KeyError"

fun TaskStatus_getitem :: "json \<Rightarrow> exn + TaskStatus" where
  "TaskStatus_getitem (JString s) =
     (if s = ''PENDING'' then Inr PENDING else if s = ''COMPLETED'' then Inr COMPLETED
      else if s = ''ARCHIVED'' then Inr ARCHIVED else if s = ''DELETED'' then Inr DELETED
      else Inl KeyError)"
| "TaskStatus_getitem (JArray xs) = Inl TypeError"
| "TaskStatus_getitem (JObject kvs) = Inl TypeError"
| "TaskStatus_getitem v = Inl KeyError"

fun as_str :: "json \<Rightarrow> exn + string" where
  "as_str (JString s) = Inr s"
| "as_str v = Inl Untyped"

text \<open>
  \<^verbatim>\<open>Task.from_dict\<close>, in the source's order of evaluation: the arguments of the
  constructor, the constructor (its two clock readings are overwritten below), then the
  status and the timestamps.
\<close>

definition from_dict :: "json \<Rightarrow> datetime \<Rightarrow> datetime \<Rightarrow> exn + Task" where
  "from_dict data now1 now2 =
     raise_or (getitem data ''title'') (\<lambda>title_v.
     raise_or (get data ''description'' (JString [])) (\<lambda>description_v.
     raise_or (get data ''due_date'' JNull) (\<lambda>due_v.
     raise_or (if truthy due_v
               then raise_or (getitem data ''due_date'') (\<lambda>v.
                    raise_or (strptime_date_of v) (\<lambda>d. Inr (Some d)))
               else Inr None) (\<lambda>due.
     raise_or (get data ''priority'' (JString ''MEDIUM'')) (\<lambda>priority_v.
     raise_or (Priority_getitem priority_v) (\<lambda>prio.
     raise_or (get data ''category'' (JString ''General'')) (\<lambda>category_v.
     raise_or (as_str title_v) (\<lambda>ttl.
     raise_or (as_str description_v) (\<lambda>descr.
     raise_or (as_str category_v) (\<lambda>cat.
     let task = Task_init ttl descr due prio cat now1 now2 in
     raise_or (get data ''status'' (JString ''PENDING'')) (\<lambda>status_v.
     raise_or (TaskStatus_getitem status_v) (\<lambda>st.
     let task = task\<lparr>status := st\<rparr> in
     raise_or (getitem data ''created_at'') (\<lambda>created_v.
     raise_or (strptime_datetime_of created_v) (\<lambda>created.
     let task = task\<lparr>created_at := created\<rparr> in
     raise_or (getitem data ''updated_at'') (\<lambda>updated_v.
     raise_or (strptime_datetime_of updated_v) (\<lambda>updated.
     let task = task\<lparr>updated_at := updated\<rparr> in
     raise_or (get data ''completed_at'' JNull) (\<lambda>completed_v.
     if truthy completed_v
     then raise_or (getitem data ''completed_at'') (\<lambda>v.
          raise_or (strptime_datetime_of v) (\<lambda>completed.
          Inr (task\<lparr>completed_at := Some completed\<rparr>)))
     else Inr task)))))))))))))))))"

text \<open>A comprehension or loop over a list stops at the first exception.\<close>

fun map_raise :: "('a \<Rightarrow> exn + 'b) \<Rightarrow> 'a list \<Rightarrow> exn + 'b list" where
  "map_raise f [] = Inr []"
| "map_raise f (x # xs) =
     raise_or (f x) (\<lambda>y. raise_or (map_raise f xs) (\<lambda>ys. Inr (y # ys)))"

text \<open>\<^verbatim>\<open>ChangeLog.from_dict\<close>.\<close>

definition change_from_dict :: "json \<Rightarrow> exn + change" where
  "change_from_dict entry =
     raise_or (getitem entry ''action'') (\<lambda>action_v.
     raise_or (getitem entry ''task_data'') (\<lambda>td.
     raise_or (getitem entry ''timestamp'') (\<lambda>ts_v.
     raise_or (strptime_datetime_of ts_v) (\<lambda>ts.
     raise_or (as_str action_v) (\<lambda>act.
     Inr \<lparr>action = act, task_data = td, timestamp = ts\<rparr>)))))"

definition changelog_from_dict :: "json \<Rightarrow> exn + change list" where
  "changelog_from_dict data = raise_or (iterate data) (map_raise change_from_dict)"

section \<open>Loading\<close>

text \<open>
  \<^verbatim>\<open>load_data\<close> returns the exception that leaves it, if one does, and the state it leaves
  behind. The handler of its \<^verbatim>\<open>try\<close> catches \<^verbatim>\<open>JSONDecodeError\<close> and \<^verbatim>\<open>KeyError\<close>. The list of
  tasks is assigned once the whole comprehension has run, and before the change log is
  read. \<open>now\<close> stands for the clock readings of the constructor calls, all overwritten.
\<close>

definition json_load :: "file_content \<Rightarrow> exn + json" where
  "json_load c = (case c of Malformed \<Rightarrow> Inl JSONDecodeError | Document v \<Rightarrow> Inr v)"

definition load_handler :: "exn \<Rightarrow> TaskManager \<Rightarrow> exn option \<times> TaskManager" where
  "load_handler e m =
     (if e = JSONDecodeError \<or> e = KeyError
      then (None, m\<lparr>effects := effects m @ [Printed_load_error e], tasks := [], changelog := []\<rparr>)
      else (Some e, m))"

definition load_data :: "TaskManager \<Rightarrow> datetime \<Rightarrow> exn option \<times> TaskManager" where
  "load_data m now =
     (case storage m of
        None \<Rightarrow> (None, m)
      | Some content \<Rightarrow>
          (case json_load content of
             Inl e \<Rightarrow> load_handler e m
           | Inr data \<Rightarrow>
               (case raise_or (get data ''tasks'' (JArray [])) (\<lambda>v.
                     raise_or (iterate v) (map_raise (\<lambda>task_data. from_dict task_data now now))) of
                  Inl e \<Rightarrow> load_handler e m
                | Inr ts \<Rightarrow>
                    let m = m\<lparr>tasks := ts\<rparr> in
                    (case raise_or (get data ''changelog'' (JArray [])) changelog_from_dict of
                       Inl e \<Rightarrow> load_handler e m
                     | Inr cl \<Rightarrow> (None, m\<lparr>changelog := cl\<rparr>)))))"

text \<open>\<^verbatim>\<open>TaskManager.__init__\<close> on a given storage file: the fields as they are set
  before the load, then the new manager, or the exception that left \<^verbatim>\<open>load_data\<close>.\<close>

definition fresh :: "file_content option \<Rightarrow> TaskManager" where
  "fresh file = \<lparr>tasks = [], changelog = [], storage = file, effects = []\<rparr>"

definition TaskManager_init :: "file_content option \<Rightarrow> datetime \<Rightarrow> exn + TaskManager" where
  "TaskManager_init file now =
     (case load_data (fresh file) now of (None, m) \<Rightarrow> Inr m | (Some e, m) \<Rightarrow> Inl e)"

section \<open>The filter, as the specification words it\<close>

text \<open>
  The specification describes \<^verbatim>\<open>apply\<close> by one predicate on tasks: the conjunction of the
  predicates that are set. \<open>spec_satisfies\<close> follows those words, to be compared with
  \<open>apply_filter\<close>, which follows the source.
\<close>

definition spec_satisfies :: "TaskFilter \<Rightarrow> datetime \<Rightarrow> Task \<Rightarrow> bool" where
  "spec_satisfies f now t =
     ((case status_f f of None \<Rightarrow> True | Some s \<Rightarrow> status t = s) \<and>
      (case priority_f f of None \<Rightarrow> True | Some p \<Rightarrow> priority t = p) \<and>
      (case category_f f of None \<Rightarrow> True | Some c \<Rightarrow> category t = c) \<and>
      (if overdue_only f then is_overdue t now else True) \<and>
      (case due_in_days f of None \<Rightarrow> True
       | Some n \<Rightarrow> (case days_until_due t now of None \<Rightarrow> False
                    | Some k \<Rightarrow> 0 \<le> k \<and> k \<le> n)))"

section \<open>Sequences of mutations\<close>

text \<open>
  The mutating choices of the console's loop (\<^verbatim>\<open>TaskManagerUI.run\<close>), each with the clock
  readings it consumes, in the order the code reads them: choice 1 builds a task
  (two readings) and adds it (one), choice 4 updates, 5 completes, 6 archives, 7 deletes.
\<close>

datatype command =
    Add string string "datetime option" Priority string datetime datetime datetime
  | Update_cmd int "kwarg list" datetime datetime
  | Complete int datetime datetime datetime
  | Archive int datetime datetime
  | Delete int datetime

fun execute :: "TaskManager \<Rightarrow> command \<Rightarrow> TaskManager" where
  "execute m (Add ttl descr due prio cat now1 now2 now3) =
     snd (add_task m (Task_init ttl descr due prio cat now1 now2) now3)"
| "execute m (Update_cmd task_id kwargs now1 now2) = snd (update_task m task_id kwargs now1 now2)"
| "execute m (Complete task_id now1 now2 now3) = snd (complete_task m task_id now1 now2 now3)"
| "execute m (Archive task_id now1 now2) = snd (archive_task m task_id now1 now2)"
| "execute m (Delete task_id now) = snd (delete_task m task_id now)"

definition execute_all :: "TaskManager \<Rightarrow> command list \<Rightarrow> TaskManager" where
  "execute_all m cmds = foldl execute m cmds"

fun readings :: "command \<Rightarrow> datetime list" where
  "readings (Add ttl descr due prio cat now1 now2 now3) = [now1, now2, now3]"
| "readings (Update_cmd task_id kwargs now1 now2) = [now1, now2]"
| "readings (Complete task_id now1 now2 now3) = [now1, now2, now3]"
| "readings (Archive task_id now1 now2) = [now1, now2]"
| "readings (Delete task_id now) = [now]"

text \<open>A clock that never runs backwards, from the reading \<open>t0\<close> on.\<close>

definition clock_monotone :: "datetime \<Rightarrow> command list \<Rightarrow> bool" where
  "clock_monotone t0 cmds = sorted_wrt datetime_le (t0 # concat (map readings cmds))"

text \<open>No update sets \<^verbatim>\<open>created_at\<close> to a time later than the clock shows at that update.\<close>

fun created_at_not_later :: "datetime \<Rightarrow> kwarg \<Rightarrow> bool" where
  "created_at_not_later now (Created_at v) = datetime_le v now"
| "created_at_not_later now k = True"

fun no_future_created_at :: "command \<Rightarrow> bool" where
  "no_future_created_at (Update_cmd task_id kwargs now1 now2) =
     list_all (created_at_not_later now1) kwargs"
| "no_future_created_at c = True"

fun is_Unknown :: "kwarg \<Rightarrow> bool" where
  "is_Unknown (Unknown k) = True"
| "is_Unknown k = False"

text \<open>Every task was created no later than it was last updated, and no later than \<open>t0\<close>.\<close>

definition created_in_order :: "datetime \<Rightarrow> TaskManager \<Rightarrow> bool" where
  "created_in_order t0 m =
     (\<forall>t\<in>set (tasks m). datetime_le (created_at t) (updated_at t) \<and>
                          datetime_le (created_at t) t0)"

text \<open>What the wire format keeps of a timestamp and of a due date.\<close>

definition whole_second :: "datetime \<Rightarrow> datetime" where
  "whole_second d = d\<lparr>microsecond := 0\<rparr>"

definition midnight :: "datetime \<Rightarrow> datetime" where
  "midnight d = d\<lparr>hour := 0, minute := 0, second := 0, microsecond := 0\<rparr>"

definition as_stored :: "Task \<Rightarrow> Task" where
  "as_stored t =
     t\<lparr>due_date := map_option midnight (due_date t),
       created_at := whole_second (created_at t),
       updated_at := whole_second (updated_at t),
       completed_at := map_option whole_second (completed_at t)\<rparr>"

text \<open>A valid datetime whose year has four digits, and a task with only such datetimes.\<close>

definition four_digit_year :: "datetime \<Rightarrow> bool" where
  "four_digit_year d = (valid_datetime d \<and> 1000 \<le> year d)"

definition four_digit_years :: "Task \<Rightarrow> bool" where
  "four_digit_years t =
     (four_digit_year (created_at t) \<and> four_digit_year (updated_at t) \<and>
      (case due_date t of None \<Rightarrow> True | Some d \<Rightarrow> four_digit_year d) \<and>
      (case completed_at t of None \<Rightarrow> True | Some d \<Rightarrow> four_digit_year d))"

section \<open>Concrete inputs\<close>

text \<open>Values on which the theorems below are instantiated.\<close>

definition morning :: datetime where
  "morning = \<lparr>year = 2024, month = 3, day = 1, hour = 9, minute = 0, second = 0,
              microsecond = 0\<rparr>"

definition noon :: datetime where
  "noon = \<lparr>year = 2024, month = 3, day = 1, hour = 12, minute = 0, second = 0,
           microsecond = 0\<rparr>"

definition evening :: datetime where
  "evening = \<lparr>year = 2024, month = 3, day = 1, hour = 18, minute = 30, second = 0,
              microsecond = 0\<rparr>"

definition next_week :: datetime where
  "next_week = \<lparr>year = 2024, month = 3, day = 8, hour = 0, minute = 0, second = 0,
                microsecond = 0\<rparr>"

definition last_week :: datetime where
  "last_week = \<lparr>year = 2024, month = 2, day = 23, hour = 0, minute = 0, second = 0,
                microsecond = 0\<rparr>"

definition report :: Task where
  "report = Task_init ''Report'' ''Quarterly figures'' (Some next_week) HIGH ''Work''
              morning morning"

definition invoice :: Task where
  "invoice = Task_init ''Invoice'' [] (Some last_week) MEDIUM ''Work'' morning morning"

text \<open>The record of \<open>report\<close> in the storage file, with a given status and
  \<^verbatim>\<open>updated_at\<close>.\<close>

definition report_record :: "string \<Rightarrow> string \<Rightarrow> json" where
  "report_record st upd = JObject
     [(''title'', JString ''Report''),
      (''description'', JString ''Quarterly figures''),
      (''due_date'', JString ''2024-03-08''),
      (''priority'', JString ''HIGH''),
      (''category'', JString ''Work''),
      (''status'', JString st),
      (''created_at'', JString ''2024-03-01 09:00:00''),
      (''updated_at'', JString upd),
      (''completed_at'', JNull)]"

definition within_a_week :: TaskFilter where
  "within_a_week = \<lparr>status_f = None, priority_f = None, category_f = None,
                     overdue_only = False, due_in_days = Some 7\<rparr>"

definition office :: TaskManager where
  "office = \<lparr>tasks = [report], changelog = [], storage = None, effects = []\<rparr>"



definition long_ago :: datetime where
  "long_ago = \<lparr>year = 999, month = 1, day = 2, hour = 9, minute = 0, second = 0,
               microsecond = 0\<rparr>"

definition chronicle :: Task where
  "chronicle = Task_init ''Chronicle'' [] None MEDIUM ''General'' long_ago long_ago"

lift_definition colour :: unknown_name is "''colour''"
  by (simp add: hasattr_possible_def field_names_def method_names_def)

definition bad_date_file :: file_content where
  "bad_date_file = Document (JObject
     [(''tasks'', JArray [JObject [(''title'', JString ''Report''),
                                   (''created_at'', JString ''yesterday''),
                                   (''updated_at'', JString ''2024-03-01 09:00:00'')]]),
      (''changelog'', JArray [])])"

definition bad_log_file :: file_content where
  "bad_log_file = Document (JObject
     [(''tasks'', JArray [to_dict report]),
      (''changelog'', JArray [JObject [(''action'', JString ''CREATE''),
                                       (''task_data'', to_dict report),
                                       (''timestamp'', JString ''01/03/2024 09:00'')]])])"

definition missing_key_file :: file_content where
  "missing_key_file = Document (JObject
     [(''tasks'', JArray [JObject [(''title'', JString ''Report''),
                                   (''updated_at'', JString ''2024-03-01 09:00:00'')]]),
      (''changelog'', JArray [])])"

definition afternoon_commands :: "command list" where
  "afternoon_commands =
     [Update_cmd 0 [Title ''Plan'', Created_at last_week] noon noon,
      Add ''Memo'' [] None LOW ''Work'' noon noon evening,
      Complete 1 evening evening evening,
      Delete 0 evening]"

section \<open>Calendar arithmetic\<close>

text \<open>
  The ordinal of a date grows with the date, so the sign of a difference of two valid
  datetimes agrees with their comparison.
\<close>

lemma div_step:
  fixes x :: int
  assumes "0 < k"
  shows "x div k = (x - 1) div k + (if x mod k = 0 then 1 else 0)"
proof (cases "x mod k = 0")
  case True
  have "x = k * (x div k)" using True by (metis add.right_neutral mult_div_mod_eq)
  then have "x - 1 = k * (x div k - 1) + (k - 1)"
    by (simp add: algebra_simps)
  then have "(x - 1) div k = x div k - 1"
    using assms int_div_pos_eq [of "x - 1" k "x div k - 1" "k - 1"] by simp
  with True show ?thesis by simp
next
  case False
  have "0 \<le> x mod k" "x mod k < k" using assms by simp_all
  with False have "0 \<le> x mod k - 1" "x mod k - 1 < k" by simp_all
  moreover have "x - 1 = k * (x div k) + (x mod k - 1)" by simp
  ultimately have "(x - 1) div k = x div k"
    using int_div_pos_eq [of "x - 1" k "x div k" "x mod k - 1"] by simp
  with False show ?thesis by simp
qed

lemma mod_chain:
  fixes x :: int
  shows "x mod 400 = 0 \<Longrightarrow> x mod 100 = 0" and "x mod 100 = 0 \<Longrightarrow> x mod 4 = 0"
proof -
  have "x mod 400 mod 100 = x mod 100" "x mod 100 mod 4 = x mod 4"
    by (simp_all add: mod_mod_cancel)
  then show "x mod 400 = 0 \<Longrightarrow> x mod 100 = 0" and "x mod 100 = 0 \<Longrightarrow> x mod 4 = 0"
    by auto
qed

lemma is_leap_int:
  "is_leap y = (int y mod 4 = 0 \<and> (int y mod 100 \<noteq> 0 \<or> int y mod 400 = 0))"
proof -
  have "(int y mod int k = 0) = (y mod k = 0)" for k
    using of_nat_mod [of y k, where ?'a = int] of_nat_eq_0_iff [of "y mod k", where ?'a = int]
    by (simp only:)
  from this [of 4] this [of 100] this [of 400] show ?thesis
    unfolding is_leap_def by simp
qed

lemma year_sum:
  fixes x :: int
  assumes "a = a' + e4" and "b = b' + e100" and "c = c' + e400"
  shows "x * 365 + a - b + c = (x - 1) * 365 + a' - b' + c' + 365 + (e4 - e100 + e400)"
  using assms by (simp add: algebra_simps)

lemma days_before_year_Suc:
  "days_before_year (Suc y) = days_before_year y + 365 + (if is_leap y then 1 else 0)"
proof -
  define x where "x = int y"
  define e4 :: int where "e4 = (if x mod 4 = 0 then 1 else 0)"
  define e100 :: int where "e100 = (if x mod 100 = 0 then 1 else 0)"
  define e400 :: int where "e400 = (if x mod 400 = 0 then 1 else 0)"
  have a: "x div 4 = (x - 1) div 4 + e4"
   and b: "x div 100 = (x - 1) div 100 + e100"
   and c: "x div 400 = (x - 1) div 400 + e400"
    unfolding e4_def e100_def e400_def by (rule div_step, simp)+
  have e: "e4 - e100 + e400 = (if is_leap y then 1 else 0)"
    unfolding e4_def e100_def e400_def is_leap_int x_def [symmetric]
    using mod_chain [of x] by (cases "x mod 4 = 0"; cases "x mod 100 = 0"; cases "x mod 400 = 0") simp_all
  have "x * 365 + x div 4 - x div 100 + x div 400 =
        (x - 1) * 365 + (x - 1) div 4 - (x - 1) div 100 + (x - 1) div 400 + 365 + (e4 - e100 + e400)"
    by (rule year_sum [OF a b c])
  then show ?thesis
    unfolding e days_before_year_def Let_def x_def by simp
qed

lemma days_before_year_mono: "y \<le> y' \<Longrightarrow> days_before_year y \<le> days_before_year y'"
proof (induction y' )
  case 0
  then show ?case by simp
next
  case (Suc y')
  show ?case
  proof (cases "y = Suc y'")
    case True
    then show ?thesis by simp
  next
    case False
    with Suc have "days_before_year y \<le> days_before_year y'" by simp
    then show ?thesis by (simp add: days_before_year_Suc)
  qed
qed


lemma month_cases:
  assumes "1 \<le> m" and "m \<le> 12"
  obtains "m = 1" | "m = 2" | "m = 3" | "m = 4" | "m = 5" | "m = 6"
    | "m = 7" | "m = 8" | "m = 9" | "m = 10" | "m = 11" | "m = (12::nat)"
proof -
  have "m = 1 \<or> m = 2 \<or> m = 3 \<or> m = 4 \<or> m = 5 \<or> m = 6 \<or>
        m = 7 \<or> m = 8 \<or> m = 9 \<or> m = 10 \<or> m = 11 \<or> m = 12"
    using assms by arith
  then show thesis using that by argo
qed

lemma days_before_month_Suc:
  assumes "1 \<le> m" and "m < 12"
  shows "days_before_month y (Suc m) = days_before_month y m + int (days_in_month y m)"
proof -
  from assms have "1 \<le> m" "m \<le> 12" by simp_all
  then show ?thesis
    using assms(2)
    by (cases m rule: month_cases)
       (simp_all add: days_before_month_def days_in_month_def DAYS_BEFORE_MONTH_def DAYS_IN_MONTH_def)
qed

lemma days_before_month_mono:
  assumes "1 \<le> m" and "m < m'" and "m' \<le> 12"
  shows "days_before_month y m + int (days_in_month y m) \<le> days_before_month y m'"
  using assms(2,3)
proof (induction m')
  case 0
  then show ?case by simp
next
  case (Suc k)
  show ?case
  proof (cases "m = k")
    case True
    with assms(1) Suc.prems show ?thesis by (simp add: days_before_month_Suc)
  next
    case False
    with Suc have "days_before_month y m + int (days_in_month y m) \<le> days_before_month y k"
      by simp
    moreover have "days_before_month y (Suc k) = days_before_month y k + int (days_in_month y k)"
      using assms(1) Suc.prems False by (intro days_before_month_Suc) simp_all
    ultimately show ?thesis by simp
  qed
qed

lemma day_of_year_le:
  assumes "1 \<le> m" and "m \<le> 12" and "d \<le> days_in_month y m"
  shows "days_before_month y m + int d \<le> 365 + (if is_leap y then 1 else 0)"
  using assms
  by (cases m rule: month_cases)
     (auto simp: days_before_month_def days_in_month_def DAYS_BEFORE_MONTH_def DAYS_IN_MONTH_def
           split: if_splits)

lemma days_before_month_nonneg: "0 \<le> days_before_month y m"
  by (simp add: days_before_month_def)


lemma toordinal_less:
  assumes "valid_datetime a" and "valid_datetime b"
    and "(year a, month a, day a) < (year b, month b, day b)"
  shows "toordinal a < toordinal b"
proof -
  from assms(1) have a: "1 \<le> month a" "month a \<le> 12" "day a \<le> days_in_month (year a) (month a)"
    by (simp_all add: valid_datetime_def)
  from assms(2) have b: "1 \<le> month b" "month b \<le> 12" "1 \<le> day b"
    by (simp_all add: valid_datetime_def)
  consider (y) "year a < year b"
    | (m) "year a = year b" "month a < month b"
    | (d) "year a = year b" "month a = month b" "day a < day b"
    using assms(3) by (cases "year a = year b"; cases "month a = month b") auto
  then show ?thesis
  proof cases
    case y
    have "toordinal a \<le> days_before_year (Suc (year a))"
      using day_of_year_le [OF a] by (simp add: toordinal_def ymd2ord_def days_before_year_Suc)
    also have "\<dots> \<le> days_before_year (year b)"
      using y by (intro days_before_year_mono) simp
    also have "\<dots> < toordinal b"
      using b(3) days_before_month_nonneg [of "year b" "month b"]
      by (simp add: toordinal_def ymd2ord_def)
    finally show ?thesis .
  next
    case m
    have "days_before_month (year a) (month a) + int (day a)
          \<le> days_before_month (year a) (month a) + int (days_in_month (year a) (month a))"
      using a(3) by simp
    also have "\<dots> \<le> days_before_month (year a) (month b)"
      using a(1) m(2) b(2) by (rule days_before_month_mono)
    finally show ?thesis
      using m(1) b(3) by (simp add: toordinal_def ymd2ord_def)
  next
    case d
    then show ?thesis by (simp add: toordinal_def ymd2ord_def)
  qed
qed

lemma day_seconds_less:
  assumes "valid_datetime a" and "valid_datetime b"
  shows "(day_seconds a < day_seconds b) =
         ((hour a, minute a, second a) < (hour b, minute b, second b))"
proof -
  from assms have "minute a < 60" "second a < 60" "minute b < 60" "second b < 60"
    by (simp_all add: valid_datetime_def)
  then show ?thesis
    unfolding day_seconds_def by (auto simp: less_le)
qed

lemma day_seconds_range:
  assumes "valid_datetime a"
  shows "0 \<le> day_seconds a" and "day_seconds a < 86400"
  using assms by (simp_all add: valid_datetime_def day_seconds_def)


lemma div_small:
  fixes z :: int
  assumes "- n \<le> z" and "z < n"
  shows "z div n = (if z < 0 then - 1 else 0)"
proof (cases "z < 0")
  case True
  have "z = n * (- 1) + (z + n)" by simp
  then have "z div n = - 1"
    using assms True int_div_pos_eq [of z n "- 1" "z + n"] by simp
  with True show ?thesis by simp
next
  case False
  with assms show ?thesis by simp
qed

lemma dt_tuple_less:
  "(dt_tuple a < dt_tuple b) =
     ((year a, month a, day a) < (year b, month b, day b) \<or>
      (year a, month a, day a) = (year b, month b, day b) \<and>
        ((hour a, minute a, second a) < (hour b, minute b, second b) \<or>
         (hour a, minute a, second a) = (hour b, minute b, second b) \<and>
           microsecond a < microsecond b))"
  unfolding dt_tuple_def by auto

lemma timedelta_days_negative:
  assumes "valid_datetime a" and "valid_datetime b"
  shows "(timedelta_days a b < 0) = datetime_lt a b"
proof -
  define D where "D = toordinal a - toordinal b"
  define S where "S = day_seconds a - day_seconds b"
  define U where "U = int (microsecond a) - int (microsecond b)"
  define q where "q = U div 1000000"
  define r where "r = (S + q) div 86400"
  have td: "timedelta_days a b = D + r"
    by (simp add: timedelta_days_def Let_def D_def S_def U_def q_def r_def)
  from assms have "- 1000000 \<le> U" "U < 1000000"
    by (simp_all add: valid_datetime_def U_def)
  then have q: "q = (if U < 0 then - 1 else 0)"
    unfolding q_def by (rule div_small)
  have "- 86400 < S" "S < 86400"
    using day_seconds_range [OF assms(1)] day_seconds_range [OF assms(2)]
    by (simp_all add: S_def)
  then have "- 86400 \<le> S + q" "S + q < 86400"
    by (simp_all add: q)
  then have r: "r = (if S + q < 0 then - 1 else 0)"
    unfolding r_def by (rule div_small)
  have S_neg: "(S < 0) = ((hour a, minute a, second a) < (hour b, minute b, second b))"
    using day_seconds_less [OF assms] by (simp add: S_def)
  have S_pos: "(0 < S) = ((hour b, minute b, second b) < (hour a, minute a, second a))"
    using day_seconds_less [OF assms(2,1)] by (simp add: S_def)
  have S_zero: "(S = 0) = ((hour a, minute a, second a) = (hour b, minute b, second b))"
    using S_neg S_pos by (metis less_irrefl linorder_less_linear)
  have U_neg: "(U < 0) = (microsecond a < microsecond b)"
    by (simp add: U_def)
  consider (lt) "(year a, month a, day a) < (year b, month b, day b)"
    | (gt) "(year b, month b, day b) < (year a, month a, day a)"
    | (eq) "(year a, month a, day a) = (year b, month b, day b)"
    using linorder_less_linear by blast
  then show ?thesis
  proof cases
    case lt
    then have "D < 0" using toordinal_less [OF assms] by (simp add: D_def)
    moreover have "r \<le> 0" by (simp add: r)
    ultimately have "timedelta_days a b < 0" by (simp add: td)
    with lt show ?thesis by (simp add: datetime_lt_def dt_tuple_less)
  next
    case gt
    then have "0 < D" using toordinal_less [OF assms(2,1)] by (simp add: D_def)
    moreover have "- 1 \<le> r" by (simp add: r)
    ultimately have "\<not> timedelta_days a b < 0" by (simp add: td)
    moreover have "\<not> (year a, month a, day a) < (year b, month b, day b)"
      by (metis gt order_less_asym)
    moreover have "(year a, month a, day a) \<noteq> (year b, month b, day b)"
      by (metis gt order_less_irrefl)
    ultimately show ?thesis by (simp only: datetime_lt_def dt_tuple_less) simp
  next
    case eq
    then have "D = 0" by (simp add: D_def toordinal_def)
    then have "(timedelta_days a b < 0) = (S + q < 0)" by (simp add: td r)
    also have "\<dots> = (S < 0 \<or> S = 0 \<and> U < 0)" by (auto simp: q)
    finally show ?thesis
      unfolding datetime_lt_def dt_tuple_less S_neg S_zero U_neg using eq by simp
  qed
qed

section \<open>Task: overdue and completion\<close>

text \<open>
  Claim C4. \<^verbatim>\<open>is_overdue()\<close> is true if and only if a due date is set, the due date is
  before the clock's reading, and the status is not Completed. After
  \<^verbatim>\<open>mark_as_completed\<close> the status is Completed, \<^verbatim>\<open>completed_at\<close> is set, and
  \<^verbatim>\<open>is_overdue()\<close> is false at every later reading, whatever the due date.
\<close>

theorem is_overdue_iff:
  "(is_overdue t now \<longleftrightarrow>
      (\<exists>d. due_date t = Some d \<and> datetime_lt d now) \<and> status t \<noteq> COMPLETED) \<and>
   status (mark_as_completed t now1 now2) = COMPLETED \<and>
   completed_at (mark_as_completed t now1 now2) \<noteq> None \<and>
   \<not> is_overdue (mark_as_completed t now1 now2) later"
  by (auto simp: is_overdue_def mark_as_completed_def split: option.splits)

section \<open>ChangeLog: entries since a time\<close>

lemma count_list_filter:
  "count_list (filter P xs) x = (if P x then count_list xs x else 0)"
  by (induction xs) auto

text \<open>
  Claim C8. \<^verbatim>\<open>get_changes_since(t)\<close> returns exactly the entries whose timestamp is at
  least \<open>t\<close>: every such entry as often as the log holds it, no other entry, in the
  order of the log. It is a function of the log and returns a new list, so the log is
  the same after the call and a second call returns the same list.
\<close>

theorem get_changes_since_exact:
  "get_changes_since changes since = filter (\<lambda>c. datetime_le since (timestamp c)) changes \<and>
   subseq (get_changes_since changes since) changes \<and>
   (\<forall>c. count_list (get_changes_since changes since) c =
        (if datetime_le since (timestamp c) then count_list changes c else 0))"
  by (simp add: get_changes_since_def count_list_filter)

section \<open>TaskFilter: the conjunction of the set predicates\<close>

lemma apply_filter_eq: "apply_filter f ts now = filter (spec_satisfies f now) ts"
  unfolding apply_filter_def spec_satisfies_def Let_def
  by (auto split: option.splits intro!: filter_cong)

lemma overdue_not_due_in_days:
  assumes "due_in_days f = Some n" and "due_date t = Some d"
    and "valid_datetime d" and "valid_datetime now" and "datetime_lt d now"
  shows "\<not> spec_satisfies f now t"
  using assms timedelta_days_negative [of d now]
  by (simp add: spec_satisfies_def days_until_due_def)

lemma spec_satisfies_DELETED:
  "status_f f = None \<Longrightarrow>
   spec_satisfies f now (t\<lparr>status := DELETED\<rparr>) = spec_satisfies f now (t\<lparr>status := PENDING\<rparr>)"
  by (simp add: spec_satisfies_def is_overdue_def days_until_due_def split: option.splits)

lemmas calendar_defs =
  valid_datetime_def days_in_month_def DAYS_IN_MONTH_def is_leap_def timedelta_days_def
  toordinal_def ymd2ord_def days_before_year_def days_before_month_def DAYS_BEFORE_MONTH_def
  day_seconds_def datetime_lt_def datetime_le_def dt_tuple_def

text \<open>
  Claim C5. The five passes of \<^verbatim>\<open>TaskFilter.apply\<close> return the tasks that satisfy the
  conjunction of the predicates that are set, in the order of the input. With only
  \<^verbatim>\<open>due_in_days = n\<close> set these are the tasks that have a due date and
  \<open>0 \<le> days_until_due \<le> n\<close>. A task whose due date is before the clock's reading
  never passes a filter with \<^verbatim>\<open>due_in_days\<close> set (its \<^verbatim>\<open>days_until_due\<close> is negative).
  With no status filter a Deleted task passes exactly when the same task with status
  Pending would.
\<close>

theorem apply_filter_conjunction:
  "apply_filter f ts now = filter (spec_satisfies f now) ts \<and>
   subseq (apply_filter f ts now) ts \<and>
   apply_filter \<lparr>status_f = None, priority_f = None, category_f = None,
                 overdue_only = False, due_in_days = Some n\<rparr> ts now =
     [t \<leftarrow> ts. \<exists>k. days_until_due t now = Some k \<and> 0 \<le> k \<and> k \<le> n] \<and>
   (\<forall>(t::Task) d. due_in_days f \<noteq> None \<and> due_date t = Some d \<and> valid_datetime d \<and>
          valid_datetime now \<and> datetime_lt d now \<longrightarrow> t \<notin> set (apply_filter f ts now)) \<and>
   (status_f f = None \<longrightarrow>
      (apply_filter f [t\<lparr>status := DELETED\<rparr>] now = [t\<lparr>status := DELETED\<rparr>]) =
      (apply_filter f [t\<lparr>status := PENDING\<rparr>] now = [t\<lparr>status := PENDING\<rparr>]))"
proof (intro conjI allI impI)
  show "apply_filter f ts now = filter (spec_satisfies f now) ts"
    by (rule apply_filter_eq)
  show "subseq (apply_filter f ts now) ts"
    by (simp add: apply_filter_eq)
  show "apply_filter \<lparr>status_f = None, priority_f = None, category_f = None,
                 overdue_only = False, due_in_days = Some n\<rparr> ts now =
     [t \<leftarrow> ts. \<exists>k. days_until_due t now = Some k \<and> 0 \<le> k \<and> k \<le> n]"
    by (auto simp: apply_filter_eq spec_satisfies_def split: option.splits intro!: filter_cong)
next
  fix t :: Task and d
  assume "due_in_days f \<noteq> None \<and> due_date t = Some d \<and> valid_datetime d \<and>
          valid_datetime now \<and> datetime_lt d now"
  then show "t \<notin> set (apply_filter f ts now)"
    using overdue_not_due_in_days [of f _ t d now] by (auto simp: apply_filter_eq)
next
  assume "status_f f = None"
  then show "(apply_filter f [t\<lparr>status := DELETED\<rparr>] now = [t\<lparr>status := DELETED\<rparr>]) =
      (apply_filter f [t\<lparr>status := PENDING\<rparr>] now = [t\<lparr>status := PENDING\<rparr>])"
    using spec_satisfies_DELETED [of f now t] by (simp add: apply_filter_eq)
qed

theorem apply_filter_conjunction_witness:
  "due_in_days within_a_week \<noteq> None \<and> due_date invoice = Some last_week \<and>
   valid_datetime last_week \<and> valid_datetime noon \<and> datetime_lt last_week noon \<and>
   invoice \<notin> set (apply_filter within_a_week [report, invoice] noon) \<and>
   apply_filter within_a_week [report, invoice] noon = [report] \<and>
   status_f within_a_week = None \<and>
   apply_filter within_a_week [report\<lparr>status := DELETED\<rparr>] noon =
     [report\<lparr>status := DELETED\<rparr>]"
  using apply_filter_conjunction [of within_a_week "[report, invoice]" noon 7 report]
  by (simp add: within_a_week_def invoice_def report_def Task_init_def last_week_def noon_def
      next_week_def morning_def calendar_defs apply_filter_def spec_satisfies_def
      days_until_due_def Let_def)

section \<open>TaskManager: what each mutation does\<close>

lemmas manager_defs =
  in_range_def Let_def add_change_def save_data_def state_document_def send_def

text \<open>
  Claim C6. For an id outside the range of the task list, \<^verbatim>\<open>update_task\<close> returns
  \<^verbatim>\<open>None\<close> and leaves the whole state as it was: the tasks, the change log, the storage
  file and the trace of effects (no rewrite of the file, no notification).
\<close>

theorem update_task_not_found:
  "task_id < 0 \<or> int (length (tasks m)) \<le> task_id \<Longrightarrow>
   update_task m task_id kwargs now1 now2 = (None, m)"
  by (auto simp: update_task_def in_range_def)

theorem update_task_not_found_witness:
  "(7 < (0::int) \<or> int (length (tasks office)) \<le> 7) \<and>
   update_task office 7 [Title ''Plan''] morning noon = (None, office)"
  using update_task_not_found [of 7 office "[Title ''Plan'']" morning noon]
  by (simp add: office_def)

lemma digit_chars:
  "digit 0 = CHR ''0''" "digit (Suc 0) = CHR ''1''" "digit 2 = CHR ''2''" "digit 3 = CHR ''3''"
  "digit 4 = CHR ''4''" "digit 5 = CHR ''5''" "digit 6 = CHR ''6''" "digit 7 = CHR ''7''"
  "digit 8 = CHR ''8''" "digit 9 = CHR ''9''"
  by code_simp+

lemmas written_defs =
  to_dict_def changelog_to_dict_def strftime_datetime_def strftime_date_def format_Y_def
  pad4_def pad2_def digit_chars report_record_def

text \<open>
  Claim C7. For an id in range, \<^verbatim>\<open>archive_task\<close> sets the task's status to Archived
  (and \<^verbatim>\<open>updated_at\<close> to the clock), appends one ARCHIVE entry holding the task's new
  snapshot, rewrites the storage file with the whole new state (every task's record
  under \<^verbatim>\<open>tasks\<close>, every entry of the log under \<^verbatim>\<open>changelog\<close>), and hands nothing to
  the notification sink: its only effect is the write. \<^verbatim>\<open>add_task\<close>, \<^verbatim>\<open>update_task\<close>,
  \<^verbatim>\<open>delete_task\<close> and \<^verbatim>\<open>complete_task\<close> each write the new state and then send one
  message. The keyword arguments of \<^verbatim>\<open>update_task\<close> are those of the type \<open>kwarg\<close>:
  values for the data attributes, and names the task lacks.
\<close>

theorem archive_task_sends_nothing:
  assumes "0 \<le> task_id" and "task_id < int (length (tasks m))"
  shows
   "(let written = (\<lambda>m'. JObject
          [(''tasks'', JArray (map to_dict (tasks m'))),
           (''changelog'', JArray (map
              (\<lambda>c. JObject [(''action'', JString (action c)),
                             (''task_data'', task_data c),
                             (''timestamp'', JString (strftime_datetime (timestamp c)))])
              (changelog m')))])
     in
      (let t' = (tasks m ! nat task_id)\<lparr>status := ARCHIVED, updated_at := now1\<rparr>;
           m' = snd (archive_task m task_id now1 now2)
       in fst (archive_task m task_id now1 now2) = Some t' \<and>
          tasks m' = (tasks m)[nat task_id := t'] \<and>
          changelog m' = changelog m @
            [\<lparr>action = ''ARCHIVE'', task_data = to_dict t', timestamp = now2\<rparr>] \<and>
          storage m' = Some (Document (written m')) \<and>
          effects m' = effects m @ [Wrote (written m')]) \<and>
      (let m' = snd (add_task m task now)
       in storage m' = Some (Document (written m')) \<and>
          effects m' = effects m @
            [Wrote (written m'), Sent (''Task added: '' @ title task)]) \<and>
      (let m' = snd (update_task m task_id kwargs now1 now2)
       in storage m' = Some (Document (written m')) \<and>
          effects m' = effects m @
            [Wrote (written m'),
             Sent (''Task updated: '' @ title (tasks m' ! nat task_id))]) \<and>
      (let m' = snd (delete_task m task_id now)
       in storage m' = Some (Document (written m')) \<and>
          effects m' = effects m @
            [Wrote (written m'),
             Sent (''Task deleted: '' @ title (tasks m' ! nat task_id))]) \<and>
      (let m' = snd (complete_task m task_id now1 now2 now3)
       in storage m' = Some (Document (written m')) \<and>
          effects m' = effects m @
            [Wrote (written m'),
             Sent (''Task completed: '' @ title (tasks m' ! nat task_id))]))"
proof -
  have "nat task_id < length (tasks m)" using assms by simp
  then show ?thesis
    using assms
    by (simp add: archive_task_def add_task_def update_task_def delete_task_def
        complete_task_def archive_def manager_defs changelog_to_dict_def)
qed

theorem archive_task_sends_nothing_witness:
  "0 \<le> (0::int) \<and> 0 < int (length (tasks office)) \<and>
   tasks (snd (archive_task office 0 noon evening)) =
     [report\<lparr>status := ARCHIVED, updated_at := noon\<rparr>] \<and>
   storage (snd (archive_task office 0 noon evening)) =
     Some (Document (JObject
       [(''tasks'', JArray [report_record ''ARCHIVED'' ''2024-03-01 12:00:00'']),
        (''changelog'', JArray
          [JObject [(''action'', JString ''ARCHIVE''),
                    (''task_data'', report_record ''ARCHIVED'' ''2024-03-01 12:00:00''),
                    (''timestamp'', JString ''2024-03-01 18:30:00'')]])])) \<and>
   effects (snd (archive_task office 0 noon evening)) =
     [Wrote (JObject
       [(''tasks'', JArray [report_record ''ARCHIVED'' ''2024-03-01 12:00:00'']),
        (''changelog'', JArray
          [JObject [(''action'', JString ''ARCHIVE''),
                    (''task_data'', report_record ''ARCHIVED'' ''2024-03-01 12:00:00''),
                    (''timestamp'', JString ''2024-03-01 18:30:00'')]])])] \<and>
   effects (snd (delete_task office 0 noon)) =
     [Wrote (JObject
       [(''tasks'', JArray [report_record ''DELETED'' ''2024-03-01 09:00:00'']),
        (''changelog'', JArray
          [JObject [(''action'', JString ''DELETE''),
                    (''task_data'', report_record ''DELETED'' ''2024-03-01 09:00:00''),
                    (''timestamp'', JString ''2024-03-01 12:00:00'')]])]),
      Sent ''Task deleted: Report'']"
proof -
  have h: "0 \<le> (0::int)" "0 < int (length (tasks office))"
    by (simp_all add: office_def)
  have archived:
    "tasks (snd (archive_task office 0 noon evening)) =
       [report\<lparr>status := ARCHIVED, updated_at := noon\<rparr>]"
    "changelog (snd (archive_task office 0 noon evening)) =
       [\<lparr>action = ''ARCHIVE'',
         task_data = to_dict (report\<lparr>status := ARCHIVED, updated_at := noon\<rparr>),
         timestamp = evening\<rparr>]"
    by (simp_all add: archive_task_def archive_def manager_defs office_def)
  have deleted:
    "tasks (snd (delete_task office 0 noon)) = [report\<lparr>status := DELETED\<rparr>]"
    "changelog (snd (delete_task office 0 noon)) =
       [\<lparr>action = ''DELETE'', task_data = to_dict (report\<lparr>status := DELETED\<rparr>),
         timestamp = noon\<rparr>]"
    by (simp_all add: delete_task_def manager_defs office_def)
  have records:
    "to_dict (report\<lparr>status := ARCHIVED, updated_at := noon\<rparr>) =
       report_record ''ARCHIVED'' ''2024-03-01 12:00:00''"
    "to_dict (report\<lparr>status := DELETED\<rparr>) =
       report_record ''DELETED'' ''2024-03-01 09:00:00''"
    "strftime_datetime evening = ''2024-03-01 18:30:00''"
    "strftime_datetime noon = ''2024-03-01 12:00:00''"
    "title (report\<lparr>status := DELETED\<rparr>) = ''Report''"
    by (simp_all add: report_def Task_init_def written_defs morning_def noon_def evening_def
        next_week_def)
  have "effects office = []" "tasks office = [report]" by (simp_all add: office_def)
  with archive_task_sends_nothing [OF h, of noon evening report noon "[]" noon]
  show ?thesis
    by (simp add: Let_def archived deleted records)
qed

text \<open>
  Claim C9. For an id in range, \<^verbatim>\<open>delete_task\<close> sets the task's status to Deleted and
  changes no other field of it, \<^verbatim>\<open>updated_at\<close> included; \<^verbatim>\<open>update_task\<close>,
  \<^verbatim>\<open>complete_task\<close> and \<^verbatim>\<open>archive_task\<close> each set \<^verbatim>\<open>updated_at\<close> to a reading of the
  clock.
\<close>

theorem delete_task_keeps_updated_at:
  assumes "0 \<le> task_id" and "task_id < int (length (tasks m))"
  shows
   "(let t = tasks m ! nat task_id;
         m' = snd (delete_task m task_id now)
     in fst (delete_task m task_id now) = True \<and>
        tasks m' = (tasks m)[nat task_id := t\<lparr>status := DELETED\<rparr>] \<and>
        status (tasks m' ! nat task_id) = DELETED \<and>
        updated_at (tasks m' ! nat task_id) = updated_at t) \<and>
    updated_at (tasks (snd (update_task m task_id kwargs now1 now2)) ! nat task_id) = now1 \<and>
    updated_at (tasks (snd (complete_task m task_id now1 now2 now3)) ! nat task_id) = now2 \<and>
    updated_at (tasks (snd (archive_task m task_id now1 now2)) ! nat task_id) = now1"
proof -
  have "nat task_id < length (tasks m)" using assms by simp
  then show ?thesis
    using assms
    by (simp add: archive_task_def update_task_def delete_task_def complete_task_def
        archive_def update_def mark_as_completed_def manager_defs)
qed

theorem delete_task_keeps_updated_at_witness:
  "0 \<le> (0::int) \<and> 0 < int (length (tasks office)) \<and>
   tasks (snd (delete_task office 0 evening)) = [report\<lparr>status := DELETED\<rparr>] \<and>
   updated_at (tasks (snd (delete_task office 0 evening)) ! 0) = morning \<and>
   updated_at (tasks (snd (archive_task office 0 noon evening)) ! 0) = noon"
  using delete_task_keeps_updated_at [of 0 office evening "[]" noon evening evening]
  by (simp add: office_def Let_def report_def Task_init_def)

lemma foldl_setattr_Unknown:
  "list_all is_Unknown kwargs \<Longrightarrow> foldl setattr t kwargs = t"
proof (induction kwargs arbitrary: t)
  case Nil
  then show ?case by simp
next
  case (Cons k ks)
  then show ?case by (cases k) simp_all
qed

text \<open>
  Claim C10. For an id in range and keyword arguments that are empty or all names the
  task lacks, \<^verbatim>\<open>update_task\<close> changes nothing of the task but \<^verbatim>\<open>updated_at\<close>, and still
  appends exactly one UPDATE entry (old and new snapshot), rewrites the storage file
  with the whole new state and sends the notification.
\<close>

theorem update_task_always_logs:
  assumes "0 \<le> task_id" and "task_id < int (length (tasks m))"
    and "list_all is_Unknown kwargs"
  shows
   "(let t = tasks m ! nat task_id;
         t' = t\<lparr>updated_at := now1\<rparr>;
         m' = snd (update_task m task_id kwargs now1 now2);
         written = JObject
          [(''tasks'', JArray (map to_dict (tasks m'))),
           (''changelog'', JArray (map
              (\<lambda>c. JObject [(''action'', JString (action c)),
                             (''task_data'', task_data c),
                             (''timestamp'', JString (strftime_datetime (timestamp c)))])
              (changelog m')))]
     in fst (update_task m task_id kwargs now1 now2) = Some t' \<and>
        tasks m' = (tasks m)[nat task_id := t'] \<and>
        changelog m' = changelog m @
          [\<lparr>action = ''UPDATE'',
            task_data = JObject [(''old'', to_dict t), (''new'', to_dict t')],
            timestamp = now2\<rparr>] \<and>
        storage m' = Some (Document written) \<and>
        effects m' = effects m @ [Wrote written, Sent (''Task updated: '' @ title t)])"
proof -
  have "nat task_id < length (tasks m)" using assms by simp
  then show ?thesis
    using assms
    by (simp add: update_task_def update_def foldl_setattr_Unknown manager_defs
        changelog_to_dict_def)
qed

theorem update_task_always_logs_witness:
  "0 \<le> (0::int) \<and> 0 < int (length (tasks office)) \<and>
   list_all is_Unknown [Unknown colour] \<and> Rep_unknown_name colour = ''colour'' \<and>
   tasks (snd (update_task office 0 [Unknown colour] noon evening)) =
     [report\<lparr>updated_at := noon\<rparr>] \<and>
   storage (snd (update_task office 0 [Unknown colour] noon evening)) =
     Some (Document (JObject
       [(''tasks'', JArray [report_record ''PENDING'' ''2024-03-01 12:00:00'']),
        (''changelog'', JArray
          [JObject [(''action'', JString ''UPDATE''),
                    (''task_data'', JObject
                       [(''old'', report_record ''PENDING'' ''2024-03-01 09:00:00''),
                        (''new'', report_record ''PENDING'' ''2024-03-01 12:00:00'')]),
                    (''timestamp'', JString ''2024-03-01 18:30:00'')]])])) \<and>
   effects (snd (update_task office 0 [Unknown colour] noon evening)) =
     [Wrote (JObject
       [(''tasks'', JArray [report_record ''PENDING'' ''2024-03-01 12:00:00'']),
        (''changelog'', JArray
          [JObject [(''action'', JString ''UPDATE''),
                    (''task_data'', JObject
                       [(''old'', report_record ''PENDING'' ''2024-03-01 09:00:00''),
                        (''new'', report_record ''PENDING'' ''2024-03-01 12:00:00'')]),
                    (''timestamp'', JString ''2024-03-01 18:30:00'')]])]),
      Sent ''Task updated: Report'']"
proof -
  have h: "0 \<le> (0::int)" "0 < int (length (tasks office))"
    "list_all is_Unknown [Unknown colour]"
    by (simp_all add: office_def)
  have records:
    "to_dict report = report_record ''PENDING'' ''2024-03-01 09:00:00''"
    "to_dict (report\<lparr>updated_at := noon\<rparr>) =
       report_record ''PENDING'' ''2024-03-01 12:00:00''"
    "strftime_datetime evening = ''2024-03-01 18:30:00''"
    "title report = ''Report''"
    by (simp_all add: report_def Task_init_def written_defs morning_def noon_def evening_def
        next_week_def)
  have "effects office = []" "tasks office = [report]" "changelog office = []"
    by (simp_all add: office_def)
  with update_task_always_logs [OF h, of noon evening]
  show ?thesis
    by (simp add: Let_def records colour.rep_eq)
qed

section \<open>Timestamps: created before updated\<close>

lemma datetime_le_refl: "datetime_le a a"
  by (simp add: datetime_le_def)

lemma datetime_le_trans: "datetime_le a b \<Longrightarrow> datetime_le b c \<Longrightarrow> datetime_le a c"
  unfolding datetime_le_def by (rule order_trans)

lemma in_range_nat: "in_range m task_id \<Longrightarrow> nat task_id < length (tasks m)"
  unfolding in_range_def by linarith

lemma created_at_foldl_setattr:
  assumes "list_all (created_at_not_later now) kwargs" and "datetime_le (created_at t) now"
  shows "datetime_le (created_at (foldl setattr t kwargs)) now"
  using assms
proof (induction kwargs arbitrary: t)
  case Nil
  then show ?case by simp
next
  case (Cons k ks)
  then show ?case by (cases k) simp_all
qed

lemma created_in_order_later:
  "created_in_order t0 m \<Longrightarrow> datetime_le t0 t1 \<Longrightarrow> created_in_order t1 m"
  unfolding created_in_order_def by (blast intro: datetime_le_trans)

lemma created_in_order_replace:
  assumes "created_in_order t1 m"
    and "datetime_le (created_at t') (updated_at t')" and "datetime_le (created_at t') t1"
  shows "\<forall>t\<in>set ((tasks m)[i := t']). datetime_le (created_at t) (updated_at t) \<and>
                          datetime_le (created_at t) t1"
  using assms set_update_subset_insert [of "tasks m" i t']
  unfolding created_in_order_def by blast

lemma execute_created_in_order:
  assumes "created_in_order t0 m" and "sorted_wrt datetime_le (t0 # readings c)"
    and "no_future_created_at c"
  shows "created_in_order (last (readings c)) (execute m c)"
proof (cases c)
  case (Add ttl descr due prio cat now1 now2 now3)
  with assms(2) have le: "datetime_le t0 now3" "datetime_le now1 now2" "datetime_le now1 now3"
    by simp_all
  from created_in_order_later [OF assms(1) le(1)] le(2,3) show ?thesis
    by (simp add: Add created_in_order_def add_task_def manager_defs Task_init_def)
next
  case (Update_cmd task_id kwargs now1 now2)
  with assms(2) have le: "datetime_le t0 now1" "datetime_le t0 now2" "datetime_le now1 now2"
    by simp_all
  note inv = created_in_order_later [OF assms(1) le(2)]
  show ?thesis
  proof (cases "in_range m task_id")
    case True
    then have i: "nat task_id < length (tasks m)" by (rule in_range_nat)
    define t where "t = tasks m ! nat task_id"
    have "t \<in> set (tasks m)" using i by (simp add: t_def)
    with assms(1) have "datetime_le (created_at t) t0" by (simp add: created_in_order_def)
    then have "datetime_le (created_at t) now1" using le(1) by (rule datetime_le_trans)
    with assms(3) have c: "datetime_le (created_at (foldl setattr t kwargs)) now1"
      by (simp add: Update_cmd created_at_foldl_setattr)
    have "datetime_le (created_at (update t kwargs now1)) (updated_at (update t kwargs now1))"
      and "datetime_le (created_at (update t kwargs now1)) now2"
      using c datetime_le_trans [OF c le(3)] by (simp_all add: update_def)
    from created_in_order_replace [OF inv this] True show ?thesis
      by (simp add: Update_cmd update_task_def manager_defs created_in_order_def t_def)
  next
    case False
    with inv show ?thesis by (simp add: Update_cmd update_task_def)
  qed
next
  case (Complete task_id now1 now2 now3)
  with assms(2) have le: "datetime_le t0 now2" "datetime_le t0 now3" "datetime_le now2 now3"
    by simp_all
  note inv = created_in_order_later [OF assms(1) le(2)]
  show ?thesis
  proof (cases "in_range m task_id")
    case True
    then have i: "nat task_id < length (tasks m)" by (rule in_range_nat)
    define t where "t = tasks m ! nat task_id"
    have "t \<in> set (tasks m)" using i by (simp add: t_def)
    with assms(1) have "datetime_le (created_at t) t0" by (simp add: created_in_order_def)
    then have c: "datetime_le (created_at t) now2" using le(1) by (rule datetime_le_trans)
    have "datetime_le (created_at (mark_as_completed t now1 now2))
                      (updated_at (mark_as_completed t now1 now2))"
      and "datetime_le (created_at (mark_as_completed t now1 now2)) now3"
      using c datetime_le_trans [OF c le(3)] by (simp_all add: mark_as_completed_def)
    from created_in_order_replace [OF inv this] True show ?thesis
      by (simp add: Complete complete_task_def manager_defs created_in_order_def t_def)
  next
    case False
    with inv show ?thesis by (simp add: Complete complete_task_def)
  qed
next
  case (Archive task_id now1 now2)
  with assms(2) have le: "datetime_le t0 now1" "datetime_le t0 now2" "datetime_le now1 now2"
    by simp_all
  note inv = created_in_order_later [OF assms(1) le(2)]
  show ?thesis
  proof (cases "in_range m task_id")
    case True
    then have i: "nat task_id < length (tasks m)" by (rule in_range_nat)
    define t where "t = tasks m ! nat task_id"
    have "t \<in> set (tasks m)" using i by (simp add: t_def)
    with assms(1) have "datetime_le (created_at t) t0" by (simp add: created_in_order_def)
    then have c: "datetime_le (created_at t) now1" using le(1) by (rule datetime_le_trans)
    have "datetime_le (created_at (archive t now1)) (updated_at (archive t now1))"
      and "datetime_le (created_at (archive t now1)) now2"
      using c datetime_le_trans [OF c le(3)] by (simp_all add: archive_def)
    from created_in_order_replace [OF inv this] True show ?thesis
      by (simp add: Archive archive_task_def manager_defs created_in_order_def t_def)
  next
    case False
    with inv show ?thesis by (simp add: Archive archive_task_def)
  qed
next
  case (Delete task_id now)
  with assms(2) have le: "datetime_le t0 now" by simp
  note inv = created_in_order_later [OF assms(1) le]
  show ?thesis
  proof (cases "in_range m task_id")
    case True
    then have i: "nat task_id < length (tasks m)" by (rule in_range_nat)
    define t where "t = tasks m ! nat task_id"
    have "t \<in> set (tasks m)" using i by (simp add: t_def)
    with inv have "datetime_le (created_at (t\<lparr>status := DELETED\<rparr>)) (updated_at (t\<lparr>status := DELETED\<rparr>))"
      and "datetime_le (created_at (t\<lparr>status := DELETED\<rparr>)) now"
      by (simp_all add: created_in_order_def)
    from created_in_order_replace [OF inv this] True show ?thesis
      by (simp add: Delete delete_task_def manager_defs created_in_order_def t_def)
  next
    case False
    with inv show ?thesis by (simp add: Delete delete_task_def)
  qed
qed

lemma readings_nonempty: "readings c \<noteq> []"
  by (cases c) simp_all

lemma clock_monotone_Cons:
  assumes "clock_monotone t0 (c # cs)"
  shows "sorted_wrt datetime_le (t0 # readings c)" and "clock_monotone (last (readings c)) cs"
proof -
  from assms have s: "sorted_wrt datetime_le ((t0 # readings c) @ concat (map readings cs))"
    by (simp add: clock_monotone_def)
  then show "sorted_wrt datetime_le (t0 # readings c)"
    unfolding sorted_wrt_append by blast
  have "last (readings c) \<in> set (t0 # readings c)"
    using readings_nonempty [of c] by simp
  with s show "clock_monotone (last (readings c)) cs"
    unfolding sorted_wrt_append clock_monotone_def by auto
qed

lemma execute_all_created_in_order:
  assumes "clock_monotone t0 cmds" and "list_all no_future_created_at cmds"
    and "created_in_order t0 m"
  shows "\<exists>t1. created_in_order t1 (execute_all m cmds)"
  using assms
proof (induction cmds arbitrary: t0 m)
  case Nil
  then show ?case by (auto simp: execute_all_def)
next
  case (Cons c cs)
  from Cons.prems(2) have "no_future_created_at c" by simp
  with Cons.prems(3) clock_monotone_Cons(1) [OF Cons.prems(1)]
  have "created_in_order (last (readings c)) (execute m c)"
    by (rule execute_created_in_order)
  with Cons.IH [of "last (readings c)" "execute m c"] clock_monotone_Cons(2) [OF Cons.prems(1)]
    Cons.prems(2)
  show ?case by (simp add: execute_all_def)
qed

text \<open>
  Claim C2, as amended. Let the clock never run backwards, and let no update set
  \<^verbatim>\<open>created_at\<close> to a time later than the clock shows at that update. Then, from a
  manager whose tasks all have \<^verbatim>\<open>created_at\<close> no later than \<^verbatim>\<open>updated_at\<close> and no later
  than the clock, every task has \<^verbatim>\<open>created_at\<close> no later than \<^verbatim>\<open>updated_at\<close> after any
  sequence of additions (each of a newly constructed task), updates, completions,
  archivings and deletions; and a newly constructed task has it as well.
\<close>

theorem created_at_le_updated_at:
  assumes "clock_monotone t0 cmds" and "list_all no_future_created_at cmds"
    and "created_in_order t0 m"
  shows "(\<forall>t\<in>set (tasks (execute_all m cmds)). datetime_le (created_at t) (updated_at t)) \<and>
         (datetime_le now1 now2 \<longrightarrow>
            datetime_le (created_at (Task_init ttl descr due prio cat now1 now2))
                        (updated_at (Task_init ttl descr due prio cat now1 now2)))"
  using execute_all_created_in_order [OF assms]
  by (auto simp: created_in_order_def Task_init_def)

theorem created_at_le_updated_at_witness:
  "clock_monotone morning afternoon_commands \<and>
   list_all no_future_created_at afternoon_commands \<and>
   created_in_order morning office \<and>
   list_all (\<lambda>t. datetime_le (created_at t) (updated_at t))
     (tasks (execute_all office afternoon_commands)) \<and>
   datetime_le morning noon \<and>
   datetime_le (created_at (Task_init ''Memo'' [] None LOW ''Work'' morning noon))
               (updated_at (Task_init ''Memo'' [] None LOW ''Work'' morning noon))"
  using created_at_le_updated_at [of morning afternoon_commands office morning noon
      "''Memo''" "[]" None LOW "''Work''"]
  by (simp add: list_all_iff afternoon_commands_def clock_monotone_def created_in_order_def
      office_def report_def Task_init_def morning_def noon_def evening_def last_week_def
      datetime_le_def dt_tuple_def)

text \<open>
  The claim as written fails: \<^verbatim>\<open>created_at\<close> is a known field name, and an update that
  sets it to next week leaves the task created after it was last updated.
\<close>

theorem update_created_at_counterexample:
  "\<not> datetime_le (created_at (update report [Created_at next_week] noon))
                    (updated_at (update report [Created_at next_week] noon)) \<and>
   \<not> list_all (\<lambda>t. datetime_le (created_at t) (updated_at t))
         (tasks (snd (update_task office 0 [Created_at next_week] noon noon)))"
  by (simp add: update_def update_task_def manager_defs office_def report_def Task_init_def
      next_week_def noon_def morning_def datetime_le_def dt_tuple_def)

section \<open>The wire format: writing a date and reading it back\<close>

lemma digit_props:
  assumes "n < 10"
  shows "is_digit (digit n)" and "digit_value (digit n) = n" and "\<not> is_space (digit n)"
  using assms by (simp_all add: is_digit_def digit_value_def is_space_def digit_def Let_def)

lemma two_digits_pad2:
  assumes "n < 100" and "ok (n div 10) (n mod 10)"
  shows "two_digits ok (pad2 n @ rest) = Some (n, rest)"
proof -
  have "n div 10 < 10" "n mod 10 < 10" using assms(1) by simp_all
  moreover have "n div 10 mod 10 = n div 10" using assms(1) by simp
  ultimately show ?thesis
    using assms(2) by (simp add: pad2_def digit_props)
qed

lemma decade:
  fixes n :: nat
  assumes "10 * a \<le> n" and "n < 10 * a + 10"
  shows "n div 10 = a" and "n mod 10 = n - 10 * a"
proof -
  define r where "r = n - 10 * a"
  have n: "n = r + a * 10" and r: "r < 10" using assms by (simp_all add: r_def)
  show "n div 10 = a" unfolding n using r by simp
  show "n mod 10 = n - 10 * a" unfolding n using r by simp
qed

lemma four_digits:
  fixes n :: nat
  assumes "n < 10000"
  shows "1000 * (n div 1000 mod 10) + 100 * (n div 100 mod 10) + 10 * (n div 10 mod 10) + n mod 10 = n"
proof -
  define a where "a = n div 10"
  define b where "b = a div 10"
  define c where "c = b div 10"
  have n: "n = 10 * a + n mod 10" and a: "a = 10 * b + a mod 10" and b: "b = 10 * c + b mod 10"
    by (simp_all add: a_def b_def c_def)
  have "n div 100 = b"
    using div_mult2_eq [of n 10 10] by (simp add: a_def b_def)
  moreover have "n div 1000 = c"
    using div_mult2_eq [of n 100 10] \<open>n div 100 = b\<close> by (simp add: c_def)
  moreover have "c < 10"
    using assms \<open>n div 1000 = c\<close> less_mult_imp_div_less [of n 10 1000] by simp
  ultimately have "1000 * (n div 1000 mod 10) + 100 * (n div 100 mod 10) + 10 * (n div 10 mod 10) + n mod 10
      = 1000 * c + 100 * (b mod 10) + 10 * (a mod 10) + n mod 10"
    by (simp add: a_def)
  also have "\<dots> = 100 * (10 * c + b mod 10) + 10 * (a mod 10) + n mod 10" by simp
  also have "\<dots> = 100 * b + 10 * (a mod 10) + n mod 10" using b by simp
  also have "\<dots> = 10 * (10 * b + a mod 10) + n mod 10" by simp
  also have "\<dots> = 10 * a + n mod 10" using a by simp
  also have "\<dots> = n" using n by simp
  finally show ?thesis .
qed


lemma parse_Y_pad4:
  assumes "n < 10000"
  shows "parse_Y (pad4 n @ rest) = Some (n, rest)"
proof -
  have d: "n div 1000 mod 10 < 10" "n div 100 mod 10 < 10" "n div 10 mod 10 < 10" "n mod 10 < 10"
    by simp_all
  have d0: "n div 1000 < 10" using assms by simp
  show ?thesis
    using four_digits [OF assms] d0
    by (simp add: pad4_def digit_props [OF d0] digit_props [OF d(2)] digit_props [OF d(3)]
        digit_props [OF d(4)])
qed

lemma parse_m_pad2:
  assumes "1 \<le> n" and "n \<le> 12"
  shows "parse_m (pad2 n @ rest) = Some (n, rest)"
proof -
  consider "n < 10" | "10 \<le> n" "n < 20" using assms by linarith
  then have "(n div 10 = 1 \<and> n mod 10 \<le> 2) \<or> (n div 10 = 0 \<and> 1 \<le> n mod 10)"
  proof cases
    case 1
    with assms show ?thesis using decade [of 0 n] by simp
  next
    case 2
    with assms show ?thesis using decade [of 1 n] by simp
  qed
  then show ?thesis
    using assms by (simp add: parse_m_def orelse_def two_digits_pad2)
qed

lemma parse_d_pad2:
  assumes "1 \<le> n" and "n \<le> 31"
  shows "parse_d (pad2 n @ rest) = Some (n, rest)"
proof -
  consider "n < 10" | "10 \<le> n" "n < 20" | "20 \<le> n" "n < 30" | "30 \<le> n" "n < 40"
    using assms by linarith
  then have "(n div 10 = 3 \<and> n mod 10 \<le> 1) \<or> (1 \<le> n div 10 \<and> n div 10 \<le> 2) \<or>
        (n div 10 = 0 \<and> 1 \<le> n mod 10)"
  proof cases
    case 1
    with assms show ?thesis using decade [of 0 n] by simp
  next
    case 2
    with assms show ?thesis using decade [of 1 n] by simp
  next
    case 3
    with assms show ?thesis using decade [of 2 n] by simp
  next
    case 4
    with assms show ?thesis using decade [of 3 n] by simp
  qed
  then show ?thesis
    using assms by (simp add: parse_d_def orelse_def two_digits_pad2)
qed

lemma parse_H_pad2:
  assumes "n < 24"
  shows "parse_H (pad2 n @ rest) = Some (n, rest)"
proof -
  consider "n < 20" | "20 \<le> n" "n < 30" using assms by linarith
  then have "(n div 10 = 2 \<and> n mod 10 \<le> 3) \<or> n div 10 \<le> 1"
  proof cases
    case 1
    then have "n div 10 < 2" by simp
    then show ?thesis by simp
  next
    case 2
    with assms show ?thesis using decade [of 2 n] by simp
  qed
  then show ?thesis
    using assms by (simp add: parse_H_def orelse_def two_digits_pad2)
qed

lemma parse_M_pad2:
  assumes "n < 60"
  shows "parse_M (pad2 n @ rest) = Some (n, rest)"
proof -
  have "n div 10 < 6" using assms by simp
  then have "n div 10 \<le> 5" by simp
  then show ?thesis
    using assms by (simp add: parse_M_def orelse_def two_digits_pad2)
qed

lemma parse_S_pad2:
  assumes "n < 60"
  shows "parse_S (pad2 n @ rest) = Some (n, rest)"
proof -
  have "n div 10 < 6" using assms by simp
  then have "n div 10 \<le> 5" by simp
  then show ?thesis
    using assms by (simp add: parse_S_def orelse_def two_digits_pad2)
qed

lemma days_in_month_le_31:
  assumes "1 \<le> m" and "m \<le> 12"
  shows "days_in_month y m \<le> 31"
  using assms by (cases m rule: month_cases) (simp_all add: days_in_month_def DAYS_IN_MONTH_def)

lemma format_Y_four_digits: "1000 \<le> y \<Longrightarrow> format_Y y = pad4 y"
  by (simp add: format_Y_def)

lemma parse_date_strftime_date:
  assumes "four_digit_year d"
  shows "parse_date (strftime_date d @ rest) = Some ((year d, month d, day d), rest)"
proof -
  from assms have y: "year d < 10000" and y4: "1000 \<le> year d"
    and m: "1 \<le> month d" "month d \<le> 12"
    and dd: "1 \<le> day d" "day d \<le> days_in_month (year d) (month d)"
    by (simp_all add: four_digit_year_def valid_datetime_def)
  from dd(2) days_in_month_le_31 [OF m] have d31: "day d \<le> 31" by (rule order_trans)
  show ?thesis
    by (simp add: parse_date_def strftime_date_def format_Y_four_digits [OF y4]
        parse_Y_pad4 [OF y] parse_m_pad2 [OF m] parse_d_pad2 [OF dd(1) d31])
qed

lemma parse_time_strftime:
  assumes "valid_datetime d"
  shows "parse_time (pad2 (hour d) @ '':'' @ pad2 (minute d) @ '':'' @ pad2 (second d) @ rest)
         = Some ((hour d, minute d, second d), rest)"
proof -
  from assms have h: "hour d < 24" and mi: "minute d < 60" and s: "second d < 60"
    by (simp_all add: valid_datetime_def)
  show ?thesis
    by (simp add: parse_time_def parse_H_pad2 [OF h] parse_M_pad2 [OF mi] parse_S_pad2 [OF s])
qed

lemma strptime_date_strftime_date:
  assumes "four_digit_year d"
  shows "strptime_date (strftime_date d) = Inr (midnight d)"
proof -
  have "valid_datetime (midnight d)"
    using assms by (simp add: four_digit_year_def valid_datetime_def midnight_def)
  moreover have "\<lparr>year = year d, month = month d, day = day d, hour = 0, minute = 0,
                  second = 0, microsecond = 0\<rparr> = midnight d"
    by (simp add: midnight_def)
  ultimately show ?thesis
    using parse_date_strftime_date [OF assms, of "[]"]
    by (simp add: strptime_date_def new_datetime_def)
qed

lemma blanks_pad2: "blanks (CHR '' '' # pad2 n @ rest) = Some (pad2 n @ rest)"
proof -
  have "n div 10 mod 10 < 10" by simp
  then have "\<not> is_space (digit (n div 10 mod 10))" by (rule digit_props)
  then show ?thesis by (simp add: pad2_def is_space_def)
qed

lemma strptime_datetime_strftime_datetime:
  assumes "four_digit_year d"
  shows "strptime_datetime (strftime_datetime d) = Inr (whole_second d)"
proof -
  from assms have v: "valid_datetime d" by (simp add: four_digit_year_def)
  then have "valid_datetime (whole_second d)"
    by (simp add: valid_datetime_def whole_second_def)
  moreover have "\<lparr>year = year d, month = month d, day = day d, hour = hour d,
                  minute = minute d, second = second d, microsecond = 0\<rparr> = whole_second d"
    by (simp add: whole_second_def)
  ultimately show ?thesis
    using parse_date_strftime_date [OF assms] parse_time_strftime [OF v, of "[]"]
    by (simp add: strptime_datetime_def strftime_datetime_def new_datetime_def blanks_pad2
        del: blanks.simps)
qed


lemma Priority_getitem_name: "Priority_getitem (JString (Priority_name p)) = Inr p"
  by (cases p) simp_all

lemma TaskStatus_getitem_name: "TaskStatus_getitem (JString (TaskStatus_name s)) = Inr s"
  by (cases s) simp_all

lemma strftime_nonempty: "strftime_date d \<noteq> []" "strftime_datetime d \<noteq> []"
  by (simp_all add: strftime_datetime_def strftime_date_def pad2_def)

lemma from_dict_to_dict:
  assumes "four_digit_years t"
  shows "from_dict (to_dict t) now1 now2 = Inr (as_stored t)"
proof -
  from assms have c: "strptime_datetime (strftime_datetime (created_at t)) = Inr (whole_second (created_at t))"
    and u: "strptime_datetime (strftime_datetime (updated_at t)) = Inr (whole_second (updated_at t))"
    by (simp_all add: four_digit_years_def strptime_datetime_strftime_datetime)
  have due: "\<And>d. due_date t = Some d \<Longrightarrow> strptime_date (strftime_date d) = Inr (midnight d)"
    using assms by (simp add: four_digit_years_def strptime_date_strftime_date)
  have compl: "\<And>d. completed_at t = Some d \<Longrightarrow>
      strptime_datetime (strftime_datetime d) = Inr (whole_second d)"
    using assms by (simp add: four_digit_years_def strptime_datetime_strftime_datetime)
  show ?thesis
    by (cases "due_date t"; cases "completed_at t")
       (simp_all add: from_dict_def to_dict_def getitem_def get_def raise_or_def c u due compl
          Priority_getitem_name TaskStatus_getitem_name strftime_nonempty Task_init_def
          as_stored_def
          del: Priority_getitem.simps TaskStatus_getitem.simps)
qed

lemma whole_second_eq: "(whole_second d = d) = (microsecond d = 0)"
  by (cases d) (simp add: whole_second_def)

lemma midnight_eq:
  "(midnight d = d) = (hour d = 0 \<and> minute d = 0 \<and> second d = 0 \<and> microsecond d = 0)"
  by (cases d) (auto simp: midnight_def)

lemma as_stored_eq:
  "(as_stored t = t) =
     (microsecond (created_at t) = 0 \<and> microsecond (updated_at t) = 0 \<and>
      (case completed_at t of None \<Rightarrow> True | Some d \<Rightarrow> microsecond d = 0) \<and>
      (case due_date t of None \<Rightarrow> True
       | Some d \<Rightarrow> hour d = 0 \<and> minute d = 0 \<and> second d = 0 \<and> microsecond d = 0))"
  by (cases t) (auto simp: as_stored_def whole_second_eq midnight_eq split: option.splits)

lemma valid_report: "four_digit_years report" "as_stored report = report"
  by (simp_all add: as_stored_eq four_digit_years_def four_digit_year_def report_def
      Task_init_def morning_def next_week_def calendar_defs)

lemma strptime_yesterday: "strptime_datetime ''yesterday'' = Inl ValueError"
  by (simp add: strptime_datetime_def parse_date_def is_digit_def)

lemma strptime_slashes: "strptime_datetime ''01/03/2024 09:00'' = Inl ValueError"
  by (simp add: strptime_datetime_def parse_date_def is_digit_def)

lemma load_bad_date:
  "load_data (fresh (Some bad_date_file)) noon = (Some ValueError, fresh (Some bad_date_file))"
  by (simp add: load_data_def fresh_def bad_date_file_def json_load_def get_def getitem_def
      raise_or_def from_dict_def load_handler_def strptime_yesterday Task_init_def)

lemma load_bad_log:
  "load_data (fresh (Some bad_log_file)) noon =
     (Some ValueError, (fresh (Some bad_log_file))\<lparr>tasks := [report]\<rparr>)"
  by (simp add: load_data_def fresh_def bad_log_file_def json_load_def get_def
      raise_or_def from_dict_to_dict valid_report load_handler_def changelog_from_dict_def
      change_from_dict_def strptime_slashes getitem_def)

lemma load_missing_key:
  "load_data (fresh (Some missing_key_file)) noon =
     (None, (fresh (Some missing_key_file))\<lparr>effects := [Printed_load_error KeyError]\<rparr>)"
  by (simp add: load_data_def fresh_def missing_key_file_def json_load_def get_def getitem_def
      raise_or_def from_dict_def load_handler_def Task_init_def)


text \<open>
  Below the year 1000 the written year has fewer than four digits, which \<^verbatim>\<open>strptime\<close>
  does not read: the record of a task created in the year 999 raises \<^verbatim>\<open>ValueError\<close>.
\<close>

lemma chronicle_round_trip: "from_dict (to_dict chronicle) noon noon = Inl ValueError"
  by (simp add: chronicle_def long_ago_def Task_init_def from_dict_def to_dict_def
      getitem_def get_def raise_or_def strftime_datetime_def strftime_date_def format_Y_def
      pad2_def digit_chars strptime_datetime_def parse_date_def is_digit_def)




section \<open>Loading a storage file with a bad date\<close>

text \<open>
  Claim C1 says that a storage file holding a bad date string makes the load fall back
  to the empty state with a diagnostic, loading nothing and letting no error out. The
  code does otherwise. \<^verbatim>\<open>strptime\<close> raises \<^verbatim>\<open>ValueError\<close>, which the handler of
  \<^verbatim>\<open>load_data\<close> does not catch: on a task with a bad \<^verbatim>\<open>created_at\<close> the exception
  leaves \<^verbatim>\<open>load_data\<close> and the constructor of the manager, with no diagnostic; on a
  change-log entry with a bad timestamp it leaves with the tasks of the file already
  loaded. A missing key, by contrast, is caught and gives the empty state and the
  diagnostic.
\<close>

theorem load_data_bad_date_escapes:
  "load_data (fresh (Some bad_date_file)) noon =
     (Some ValueError, fresh (Some bad_date_file)) \<and>
   TaskManager_init (Some bad_date_file) noon = Inl ValueError \<and>
   load_data (fresh (Some bad_log_file)) noon =
     (Some ValueError, (fresh (Some bad_log_file))\<lparr>tasks := [report]\<rparr>) \<and>
   load_data (fresh (Some missing_key_file)) noon =
     (None, (fresh (Some missing_key_file))\<lparr>effects := [Printed_load_error KeyError]\<rparr>)"
  by (simp add: load_bad_date load_bad_log load_missing_key TaskManager_init_def)

end
